theory Spec2Isabelle
  imports Main "HOL-Library.AList"
begin

section \<open>Python values and string operations used by the module\<close>

text \<open>
  Values that come back from the remote client. The module only ever looks at integers
  (limits, ratio, priority) and strings (description, status names); everything else a
  call may return is ignored, so \<open>PNone\<close> stands for it.
\<close>

datatype pyval = PNone | PInt int | PStr string

text \<open>\<^verbatim>\<open>sub in s\<close> on strings.\<close>

fun str_in :: "string \<Rightarrow> string \<Rightarrow> bool" where
  "str_in sub [] = (sub = [])"
| "str_in sub (c # cs) = (take (length sub) (c # cs) = sub \<or> str_in sub cs)"

text \<open>
  \<^verbatim>\<open>s.split(sep)[-1]\<close> for a non-empty separator: scan from the left, cut at every
  occurrence of the separator, keep the piece after the last cut. \<open>cur\<close> is the piece
  being collected.
\<close>

fun split_last :: "string \<Rightarrow> string \<Rightarrow> string \<Rightarrow> string" where
  "split_last sep cur [] = cur"
| "split_last sep cur (c # cs) =
     (if sep \<noteq> [] \<and> take (length sep) (c # cs) = sep
      then split_last sep [] (drop (length sep - 1) cs)
      else split_last sep (cur @ [c]) cs)"

text \<open>\<^verbatim>\<open>str.lower()\<close> and \<^verbatim>\<open>str.upper()\<close> on ASCII letters; other bytes are kept.\<close>

definition lower_char :: "char \<Rightarrow> char" where
  "lower_char c =
     (case map_of (zip ''ABCDEFGHIJKLMNOPQRSTUVWXYZ'' ''abcdefghijklmnopqrstuvwxyz'') c of
        Some l \<Rightarrow> l | None \<Rightarrow> c)"

definition upper_char :: "char \<Rightarrow> char" where
  "upper_char c =
     (case map_of (zip ''abcdefghijklmnopqrstuvwxyz'' ''ABCDEFGHIJKLMNOPQRSTUVWXYZ'') c of
        Some u \<Rightarrow> u | None \<Rightarrow> c)"

definition lower :: "string \<Rightarrow> string" where
  "lower s = map lower_char s"

definition upper :: "string \<Rightarrow> string" where
  "upper s = map upper_char s"

text \<open>\<^verbatim>\<open>str.strip()\<close>: space, tab, newline, carriage return, vertical tab, form feed.\<close>

definition is_space :: "char \<Rightarrow> bool" where
  "is_space c = (c \<in> set [CHR '' '', CHR 0x09, CHR 0x0A, CHR 0x0D, CHR 0x0B, CHR 0x0C])"

definition strip :: "string \<Rightarrow> string" where
  "strip s = rev (dropWhile is_space (rev (dropWhile is_space s)))"


section \<open>The remote client\<close>

text \<open>
  \<open>api\<close> is the bigsuds client object. Each constructor of \<open>call\<close> is one method the
  module invokes on it, with the arguments the module passes (pool name, member address,
  member port and, for a setter, the value). \<open>BigipApi\<close> is the call of
  \<^verbatim>\<open>bigip_api(server, user, password, validate_certs, port=server_port)\<close> that opens the
  session.
\<close>

datatype call =
    BigipApi string string string bool int
  | Get_object_status string
  | Get_member_object_status string string int
  | Remove_member_v2 string string int
  | Add_member_v2 string string int
  | Delete_node_address string
  | Get_member_connection_limit string string int
  | Set_member_connection_limit string string int int
  | Get_member_description string string int
  | Set_member_description string string int string
  | Get_member_rate_limit string string int
  | Set_member_rate_limit string string int int
  | Get_member_ratio string string int
  | Set_member_ratio string string int int
  | Get_member_priority string string int
  | Set_member_priority string string int int
  | Set_member_session_enabled_state string string int string
  | Get_member_session_status string string int
  | Set_member_monitor_state string string int string
  | Get_member_monitor_status string string int

text \<open>
  What a call can raise: \<^verbatim>\<open>bigsuds.OperationFailed\<close>, or any other \<^verbatim>\<open>Exception\<close>
  (a connection error, an \<^verbatim>\<open>IndexError\<close> of the \<^verbatim>\<open>[0][0]\<close> that follows a getter, ...).
  The string is \<^verbatim>\<open>str(e)\<close>.
\<close>

datatype exn = OperationFailed string | OtherException string

fun exn_str :: "exn \<Rightarrow> string" where
  "exn_str (OperationFailed m) = m"
| "exn_str (OtherException m) = m"

text \<open>
  The client is a parameter of the model: from its own state \<open>'d\<close> (the device behind the
  connection) and a call it gives the response and the next state. For a getter the
  response is the element \<^verbatim>\<open>[0][0]\<close> of what the method returns.
\<close>

type_synonym 'd api = "'d \<Rightarrow> call \<Rightarrow> (exn + pyval) \<times> 'd"

text \<open>Calls that change the device: member creation and removal, node deletion, setters.\<close>

fun is_write :: "call \<Rightarrow> bool" where
  "is_write (Remove_member_v2 _ _ _) = True"
| "is_write (Add_member_v2 _ _ _) = True"
| "is_write (Delete_node_address _) = True"
| "is_write (Set_member_connection_limit _ _ _ _) = True"
| "is_write (Set_member_description _ _ _ _) = True"
| "is_write (Set_member_rate_limit _ _ _ _) = True"
| "is_write (Set_member_ratio _ _ _ _) = True"
| "is_write (Set_member_priority _ _ _ _) = True"
| "is_write (Set_member_session_enabled_state _ _ _ _) = True"
| "is_write (Set_member_monitor_state _ _ _ _) = True"
| "is_write _ = False"


section \<open>Running code against the client\<close>

text \<open>
  A piece of the module's code runs from a state (the calls issued so far, the device) to
  a value or an abort, and the next state. An abort is an exception on its way to the
  \<^verbatim>\<open>except Exception\<close> of \<^verbatim>\<open>main\<close>, or the exit of \<^verbatim>\<open>module.fail_json\<close>, which that
  handler does not catch.
\<close>

datatype abort = Raised exn | FailJson string

type_synonym 'd st = "call list \<times> 'd"

type_synonym ('d, 'a) act = "'d st \<Rightarrow> (abort + 'a) \<times> 'd st"

definition ret :: "'a \<Rightarrow> ('d, 'a) act" where
  "ret x s = (Inr x, s)"

definition fail_json :: "string \<Rightarrow> ('d, 'a) act" where
  "fail_json msg s = (Inl (FailJson msg), s)"

definition bind_act :: "('d, 'a) act \<Rightarrow> ('a \<Rightarrow> ('d, 'b) act) \<Rightarrow> ('d, 'b) act" where
  "bind_act m f s = (case m s of (Inl e, s') \<Rightarrow> (Inl e, s') | (Inr x, s') \<Rightarrow> f x s')"

text \<open>One method call: it is appended to the log whether it returns or raises.\<close>

definition invoke :: "'d api \<Rightarrow> call \<Rightarrow> 'd st \<Rightarrow> (exn + pyval) \<times> 'd st" where
  "invoke api c s = (case api (snd s) c of (r, d') \<Rightarrow> (r, (fst s @ [c], d')))"

text \<open>A method call outside any \<^verbatim>\<open>try\<close> of its own: what it raises propagates.\<close>

definition do_call :: "'d api \<Rightarrow> call \<Rightarrow> ('d, pyval) act" where
  "do_call api c s =
     (case invoke api c s of (Inl e, s') \<Rightarrow> (Inl (Raised e), s') | (Inr v, s') \<Rightarrow> (Inr v, s'))"

definition raise_exn :: "exn \<Rightarrow> ('d, 'a) act" where
  "raise_exn e s = (Inl (Raised e), s)"

text \<open>\<^verbatim>\<open>if b: m\<close> for a statement \<open>m\<close>.\<close>

definition when_act :: "bool \<Rightarrow> ('d, unit) act \<Rightarrow> ('d, unit) act" where
  "when_act b m = (if b then m else ret ())"

text \<open>\<^verbatim>\<open>if v is not None: f(v)\<close>.\<close>

definition if_supplied :: "'a option \<Rightarrow> ('a \<Rightarrow> ('d, unit) act) \<Rightarrow> ('d, unit) act" where
  "if_supplied v f = (case v of None \<Rightarrow> ret () | Some x \<Rightarrow> f x)"


section \<open>The helper functions of the module\<close>

definition pool_exists :: "'d api \<Rightarrow> string \<Rightarrow> ('d, bool) act" where
  "pool_exists api pool s =
     (case invoke api (Get_object_status pool) s of
        (Inr _, s') \<Rightarrow> (Inr True, s')
      | (Inl (OperationFailed e), s') \<Rightarrow>
          if str_in ''was not found'' e then (Inr False, s')
          else (Inl (Raised (OperationFailed e)), s')
      | (Inl (OtherException e), s') \<Rightarrow> (Inl (Raised (OtherException e)), s'))"

definition member_exists :: "'d api \<Rightarrow> string \<Rightarrow> string \<Rightarrow> int \<Rightarrow> ('d, bool) act" where
  "member_exists api pool address port s =
     (case invoke api (Get_member_object_status pool address port) s of
        (Inr _, s') \<Rightarrow> (Inr True, s')
      | (Inl (OperationFailed e), s') \<Rightarrow>
          if str_in ''was not found'' e then (Inr False, s')
          else (Inl (Raised (OperationFailed e)), s')
      | (Inl (OtherException e), s') \<Rightarrow> (Inl (Raised (OtherException e)), s'))"

definition delete_node_address :: "'d api \<Rightarrow> string \<Rightarrow> ('d, bool) act" where
  "delete_node_address api address s =
     (case invoke api (Delete_node_address address) s of
        (Inr _, s') \<Rightarrow> (Inr True, s')
      | (Inl (OperationFailed e), s') \<Rightarrow>
          if str_in ''is referenced by a member of pool'' e then (Inr False, s')
          else (Inl (Raised (OperationFailed e)), s')
      | (Inl (OtherException e), s') \<Rightarrow> (Inl (Raised (OtherException e)), s'))"

definition remove_pool_member :: "'d api \<Rightarrow> string \<Rightarrow> string \<Rightarrow> int \<Rightarrow> ('d, unit) act" where
  "remove_pool_member api pool address port =
     bind_act (do_call api (Remove_member_v2 pool address port)) (\<lambda>_. ret ())"

definition add_pool_member :: "'d api \<Rightarrow> string \<Rightarrow> string \<Rightarrow> int \<Rightarrow> ('d, unit) act" where
  "add_pool_member api pool address port =
     bind_act (do_call api (Add_member_v2 pool address port)) (\<lambda>_. ret ())"

definition get_connection_limit :: "'d api \<Rightarrow> string \<Rightarrow> string \<Rightarrow> int \<Rightarrow> ('d, pyval) act" where
  "get_connection_limit api pool address port =
     do_call api (Get_member_connection_limit pool address port)"

definition set_connection_limit ::
  "'d api \<Rightarrow> string \<Rightarrow> string \<Rightarrow> int \<Rightarrow> int \<Rightarrow> ('d, unit) act" where
  "set_connection_limit api pool address port limit =
     bind_act (do_call api (Set_member_connection_limit pool address port limit)) (\<lambda>_. ret ())"

definition get_description :: "'d api \<Rightarrow> string \<Rightarrow> string \<Rightarrow> int \<Rightarrow> ('d, pyval) act" where
  "get_description api pool address port =
     do_call api (Get_member_description pool address port)"

definition set_description ::
  "'d api \<Rightarrow> string \<Rightarrow> string \<Rightarrow> int \<Rightarrow> string \<Rightarrow> ('d, unit) act" where
  "set_description api pool address port description =
     bind_act (do_call api (Set_member_description pool address port description)) (\<lambda>_. ret ())"

definition get_rate_limit :: "'d api \<Rightarrow> string \<Rightarrow> string \<Rightarrow> int \<Rightarrow> ('d, pyval) act" where
  "get_rate_limit api pool address port =
     do_call api (Get_member_rate_limit pool address port)"

definition set_rate_limit ::
  "'d api \<Rightarrow> string \<Rightarrow> string \<Rightarrow> int \<Rightarrow> int \<Rightarrow> ('d, unit) act" where
  "set_rate_limit api pool address port limit =
     bind_act (do_call api (Set_member_rate_limit pool address port limit)) (\<lambda>_. ret ())"

definition get_ratio :: "'d api \<Rightarrow> string \<Rightarrow> string \<Rightarrow> int \<Rightarrow> ('d, pyval) act" where
  "get_ratio api pool address port =
     do_call api (Get_member_ratio pool address port)"

definition set_ratio ::
  "'d api \<Rightarrow> string \<Rightarrow> string \<Rightarrow> int \<Rightarrow> int \<Rightarrow> ('d, unit) act" where
  "set_ratio api pool address port ratio =
     bind_act (do_call api (Set_member_ratio pool address port ratio)) (\<lambda>_. ret ())"

definition get_priority_group :: "'d api \<Rightarrow> string \<Rightarrow> string \<Rightarrow> int \<Rightarrow> ('d, pyval) act" where
  "get_priority_group api pool address port =
     do_call api (Get_member_priority pool address port)"

definition set_priority_group ::
  "'d api \<Rightarrow> string \<Rightarrow> string \<Rightarrow> int \<Rightarrow> int \<Rightarrow> ('d, unit) act" where
  "set_priority_group api pool address port priority_group =
     bind_act (do_call api (Set_member_priority pool address port priority_group)) (\<lambda>_. ret ())"

definition set_member_session_enabled_state ::
  "'d api \<Rightarrow> string \<Rightarrow> string \<Rightarrow> int \<Rightarrow> string \<Rightarrow> ('d, unit) act" where
  "set_member_session_enabled_state api pool address port session_state =
     bind_act (do_call api (Set_member_session_enabled_state pool address port
                              (''STATE_'' @ upper (strip session_state))))
       (\<lambda>_. ret ())"

text \<open>
  The getters of the two statuses call a string method on the value read; on a value that
  is not a string Python raises \<^verbatim>\<open>AttributeError\<close>.
\<close>

definition no_attribute :: "string \<Rightarrow> string \<Rightarrow> exn" where
  "no_attribute ty attr =
     OtherException ([CHR 0x27] @ ty @ [CHR 0x27] @ '' object has no attribute '' @
                     [CHR 0x27] @ attr @ [CHR 0x27])"

definition get_member_session_status ::
  "'d api \<Rightarrow> string \<Rightarrow> string \<Rightarrow> int \<Rightarrow> ('d, string) act" where
  "get_member_session_status api pool address port =
     bind_act (do_call api (Get_member_session_status pool address port))
       (\<lambda>result. case result of
            PStr r \<Rightarrow> ret (lower (split_last ''SESSION_STATUS_'' [] r))
          | PInt _ \<Rightarrow> raise_exn (no_attribute ''int'' ''split'')
          | PNone \<Rightarrow> raise_exn (no_attribute ''NoneType'' ''split''))"

definition set_member_monitor_state ::
  "'d api \<Rightarrow> string \<Rightarrow> string \<Rightarrow> int \<Rightarrow> string \<Rightarrow> ('d, unit) act" where
  "set_member_monitor_state api pool address port monitor_state =
     bind_act (do_call api (Set_member_monitor_state pool address port
                              (''STATE_'' @ upper (strip monitor_state))))
       (\<lambda>_. ret ())"

definition get_member_monitor_status ::
  "'d api \<Rightarrow> string \<Rightarrow> string \<Rightarrow> int \<Rightarrow> ('d, string) act" where
  "get_member_monitor_status api pool address port =
     bind_act (do_call api (Get_member_monitor_status pool address port))
       (\<lambda>result. case result of
            PStr r \<Rightarrow> ret (lower (split_last ''MONITOR_STATUS_'' [] r))
          | PInt _ \<Rightarrow> raise_exn (no_attribute ''int'' ''split'')
          | PNone \<Rightarrow> raise_exn (no_attribute ''NoneType'' ''split''))"


section \<open>The module's parameters and result\<close>

text \<open>
  \<open>params\<close> is \<^verbatim>\<open>module.params\<close> together with \<^verbatim>\<open>module.check_mode\<close>. An option is
  \<^verbatim>\<open>None\<close> when the caller did not supply the parameter.
\<close>

record params =
  p_server :: string
  p_server_port :: int
  p_user :: string
  p_password :: string
  p_state :: string
  p_partition :: string
  p_validate_certs :: bool
  p_session_state :: "string option"
  p_monitor_state :: "string option"
  p_pool :: "string option"
  p_host :: "string option"
  p_port :: "int option"
  p_connection_limit :: "int option"
  p_description :: "string option"
  p_rate_limit :: "int option"
  p_ratio :: "int option"
  p_preserve_node :: bool
  p_priority_group :: "int option"
  p_check_mode :: bool

text \<open>
  What the run depends on besides the parameters and the client: whether \<^verbatim>\<open>bigsuds\<close>
  could be imported, whether \<^verbatim>\<open>ssl\<close> has \<^verbatim>\<open>SSLContext\<close>, and \<^verbatim>\<open>fqdn_name\<close>, which the
  module imports from \<^verbatim>\<open>module_utils.network.f5.common\<close> and applies to the partition and
  a name.
\<close>

record env =
  bigsuds_found :: bool
  ssl_has_SSLContext :: bool
  fqdn_name :: "string \<Rightarrow> string \<Rightarrow> string"

text \<open>The dictionary \<^verbatim>\<open>result\<close>: the key \<^verbatim>\<open>deleted\<close> may be missing.\<close>

record result =
  changed :: bool
  deleted :: "bool option"

text \<open>
  How a run ends: \<^verbatim>\<open>module.exit_json(**result)\<close>, \<^verbatim>\<open>module.fail_json(msg=...)\<close>, or the
  constructor \<^verbatim>\<open>AnsibleModule(argument_spec=...)\<close> rejecting the parameters.
\<close>

datatype outcome = Exit_json result | Fail_json string | Argument_spec_failure

text \<open>
  Modelled from the spec: the constructor \<^verbatim>\<open>AnsibleModule\<close> of \<^verbatim>\<open>module_utils.basic\<close> is
  not among the sources. \<^verbatim>\<open>main\<close> calls it with the entries of \<^verbatim>\<open>meta_args\<close>: \<^verbatim>\<open>pool\<close>,
  \<^verbatim>\<open>host\<close> and \<^verbatim>\<open>port\<close> are \<^verbatim>\<open>required=True\<close>; \<^verbatim>\<open>session_state\<close> and \<^verbatim>\<open>monitor_state\<close>
  have \<^verbatim>\<open>choices=['enabled', 'disabled']\<close>. As the specification has it, host and port
  are required and a state intent is enabled or disabled: the constructor ends the run
  when a required parameter is missing or a value is not among its choices.
\<close>

definition in_choices :: "string option \<Rightarrow> string list \<Rightarrow> bool" where
  "in_choices v choices = (case v of None \<Rightarrow> True | Some x \<Rightarrow> x \<in> set choices)"

definition argument_spec_ok :: "params \<Rightarrow> bool" where
  "argument_spec_ok p =
     (p_pool p \<noteq> None \<and> p_host p \<noteq> None \<and> p_port p \<noteq> None \<and>
      in_choices (p_session_state p) [''enabled'', ''disabled''] \<and>
      in_choices (p_monitor_state p) [''enabled'', ''disabled''])"

text \<open>Truth value of \<^verbatim>\<open>host\<close> in a condition: \<^verbatim>\<open>None\<close> and the empty string are false.\<close>

definition truthy :: "string option \<Rightarrow> bool" where
  "truthy h = (case h of None \<Rightarrow> False | Some x \<Rightarrow> x \<noteq> [])"


section \<open>The branches of main\<close>

text \<open>State absent: lines 455 to 464.\<close>

definition main_absent ::
  "'d api \<Rightarrow> params \<Rightarrow> string \<Rightarrow> string \<Rightarrow> int \<Rightarrow> ('d, result) act" where
  "main_absent api p pool address port =
     bind_act (member_exists api pool address port) (\<lambda>exists.
       if exists then
         if \<not> p_check_mode p then
           bind_act (remove_pool_member api pool address port) (\<lambda>_.
             if p_preserve_node p then ret \<lparr>changed = True, deleted = None\<rparr>
             else bind_act (delete_node_address api address) (\<lambda>del.
                    ret \<lparr>changed = True, deleted = Some del\<rparr>))
         else ret \<lparr>changed = True, deleted = None\<rparr>
       else ret \<lparr>changed = False, deleted = None\<rparr>)"

text \<open>State present, member missing: lines 469 to 483, the body of \<^verbatim>\<open>if not module.check_mode\<close>.\<close>

definition main_create ::
  "'d api \<Rightarrow> params \<Rightarrow> string \<Rightarrow> string \<Rightarrow> int \<Rightarrow> ('d, unit) act" where
  "main_create api p pool address port =
     bind_act (add_pool_member api pool address port) (\<lambda>_.
     bind_act (if_supplied (p_connection_limit p) (set_connection_limit api pool address port)) (\<lambda>_.
     bind_act (if_supplied (p_description p) (set_description api pool address port)) (\<lambda>_.
     bind_act (if_supplied (p_rate_limit p) (set_rate_limit api pool address port)) (\<lambda>_.
     bind_act (if_supplied (p_ratio p) (set_ratio api pool address port)) (\<lambda>_.
     bind_act (if_supplied (p_session_state p)
                 (set_member_session_enabled_state api pool address port)) (\<lambda>_.
     bind_act (if_supplied (p_monitor_state p)
                 (set_member_monitor_state api pool address port)) (\<lambda>_.
     if_supplied (p_priority_group p) (set_priority_group api pool address port))))))))"

text \<open>
  State present, member exists: one definition per \<^verbatim>\<open>if\<close> statement of lines 487 to 526.
  Each takes the value of \<^verbatim>\<open>result\<close> before the statement and returns its value after.
\<close>

definition update_connection_limit ::
  "'d api \<Rightarrow> params \<Rightarrow> string \<Rightarrow> string \<Rightarrow> int \<Rightarrow> result \<Rightarrow> ('d, result) act" where
  "update_connection_limit api p pool address port res =
     (case p_connection_limit p of
        None \<Rightarrow> ret res
      | Some connection_limit \<Rightarrow>
          bind_act (get_connection_limit api pool address port) (\<lambda>cur.
            if PInt connection_limit \<noteq> cur then
              bind_act (when_act (\<not> p_check_mode p)
                          (set_connection_limit api pool address port connection_limit))
                (\<lambda>_. ret \<lparr>changed = True, deleted = None\<rparr>)
            else ret res))"

definition update_description ::
  "'d api \<Rightarrow> params \<Rightarrow> string \<Rightarrow> string \<Rightarrow> int \<Rightarrow> result \<Rightarrow> ('d, result) act" where
  "update_description api p pool address port res =
     (case p_description p of
        None \<Rightarrow> ret res
      | Some description \<Rightarrow>
          bind_act (get_description api pool address port) (\<lambda>cur.
            if PStr description \<noteq> cur then
              bind_act (when_act (\<not> p_check_mode p)
                          (set_description api pool address port description))
                (\<lambda>_. ret \<lparr>changed = True, deleted = None\<rparr>)
            else ret res))"

definition update_rate_limit ::
  "'d api \<Rightarrow> params \<Rightarrow> string \<Rightarrow> string \<Rightarrow> int \<Rightarrow> result \<Rightarrow> ('d, result) act" where
  "update_rate_limit api p pool address port res =
     (case p_rate_limit p of
        None \<Rightarrow> ret res
      | Some rate_limit \<Rightarrow>
          bind_act (get_rate_limit api pool address port) (\<lambda>cur.
            if PInt rate_limit \<noteq> cur then
              bind_act (when_act (\<not> p_check_mode p)
                          (set_rate_limit api pool address port rate_limit))
                (\<lambda>_. ret \<lparr>changed = True, deleted = None\<rparr>)
            else ret res))"

definition update_ratio ::
  "'d api \<Rightarrow> params \<Rightarrow> string \<Rightarrow> string \<Rightarrow> int \<Rightarrow> result \<Rightarrow> ('d, result) act" where
  "update_ratio api p pool address port res =
     (case p_ratio p of
        None \<Rightarrow> ret res
      | Some ratio \<Rightarrow>
          bind_act (get_ratio api pool address port) (\<lambda>cur.
            if PInt ratio \<noteq> cur then
              bind_act (when_act (\<not> p_check_mode p)
                          (set_ratio api pool address port ratio))
                (\<lambda>_. ret \<lparr>changed = True, deleted = None\<rparr>)
            else ret res))"

definition update_session_state ::
  "'d api \<Rightarrow> params \<Rightarrow> string \<Rightarrow> string \<Rightarrow> int \<Rightarrow> result \<Rightarrow> ('d, result) act" where
  "update_session_state api p pool address port res =
     (case p_session_state p of
        None \<Rightarrow> ret res
      | Some session_state \<Rightarrow>
          bind_act (get_member_session_status api pool address port) (\<lambda>session_status.
            if session_state = ''enabled'' \<and> session_status = ''forced_disabled'' then
              bind_act (when_act (\<not> p_check_mode p)
                          (set_member_session_enabled_state api pool address port session_state))
                (\<lambda>_. ret \<lparr>changed = True, deleted = None\<rparr>)
            else if session_state = ''disabled'' \<and> session_status \<noteq> ''forced_disabled'' then
              bind_act (when_act (\<not> p_check_mode p)
                          (set_member_session_enabled_state api pool address port session_state))
                (\<lambda>_. ret \<lparr>changed = True, deleted = None\<rparr>)
            else ret res))"

definition update_monitor_state ::
  "'d api \<Rightarrow> params \<Rightarrow> string \<Rightarrow> string \<Rightarrow> int \<Rightarrow> result \<Rightarrow> ('d, result) act" where
  "update_monitor_state api p pool address port res =
     (case p_monitor_state p of
        None \<Rightarrow> ret res
      | Some monitor_state \<Rightarrow>
          bind_act (get_member_monitor_status api pool address port) (\<lambda>monitor_status.
            if monitor_state = ''enabled'' \<and> monitor_status = ''forced_down'' then
              bind_act (when_act (\<not> p_check_mode p)
                          (set_member_monitor_state api pool address port monitor_state))
                (\<lambda>_. ret \<lparr>changed = True, deleted = None\<rparr>)
            else if monitor_state = ''disabled'' \<and> monitor_status \<noteq> ''forced_down'' then
              bind_act (when_act (\<not> p_check_mode p)
                          (set_member_monitor_state api pool address port monitor_state))
                (\<lambda>_. ret \<lparr>changed = True, deleted = None\<rparr>)
            else ret res))"

definition update_priority_group ::
  "'d api \<Rightarrow> params \<Rightarrow> string \<Rightarrow> string \<Rightarrow> int \<Rightarrow> result \<Rightarrow> ('d, result) act" where
  "update_priority_group api p pool address port res =
     (case p_priority_group p of
        None \<Rightarrow> ret res
      | Some priority_group \<Rightarrow>
          bind_act (get_priority_group api pool address port) (\<lambda>cur.
            if PInt priority_group \<noteq> cur then
              bind_act (when_act (\<not> p_check_mode p)
                          (set_priority_group api pool address port priority_group))
                (\<lambda>_. ret \<lparr>changed = True, deleted = None\<rparr>)
            else ret res))"

definition main_update ::
  "'d api \<Rightarrow> params \<Rightarrow> string \<Rightarrow> string \<Rightarrow> int \<Rightarrow> result \<Rightarrow> ('d, result) act" where
  "main_update api p pool address port res0 =
     bind_act (update_connection_limit api p pool address port res0) (\<lambda>res1.
     bind_act (update_description api p pool address port res1) (\<lambda>res2.
     bind_act (update_rate_limit api p pool address port res2) (\<lambda>res3.
     bind_act (update_ratio api p pool address port res3) (\<lambda>res4.
     bind_act (update_session_state api p pool address port res4) (\<lambda>res5.
     bind_act (update_monitor_state api p pool address port res5) (\<lambda>res6.
     update_priority_group api p pool address port res6))))))"

text \<open>State present: lines 467 to 526.\<close>

definition main_present ::
  "'d api \<Rightarrow> params \<Rightarrow> string \<Rightarrow> string \<Rightarrow> int \<Rightarrow> ('d, result) act" where
  "main_present api p pool address port =
     bind_act (member_exists api pool address port) (\<lambda>exists.
       if \<not> exists then
         bind_act (when_act (\<not> p_check_mode p) (main_create api p pool address port))
           (\<lambda>_. ret \<lparr>changed = True, deleted = None\<rparr>)
       else main_update api p pool address port \<lparr>changed = False, deleted = None\<rparr>)"


section \<open>main\<close>

text \<open>The body of the \<^verbatim>\<open>try\<close> statement, lines 449 to 526.\<close>

definition main_try ::
  "'d api \<Rightarrow> params \<Rightarrow> string \<Rightarrow> string \<Rightarrow> int \<Rightarrow> ('d, result) act" where
  "main_try api p pool address port =
     bind_act (do_call api (BigipApi (p_server p) (p_user p) (p_password p)
                              (p_validate_certs p) (p_server_port p))) (\<lambda>_.
     bind_act (pool_exists api pool) (\<lambda>exists.
       if \<not> exists then fail_json (''pool '' @ pool @ '' does not exist'')
       else if p_state p = ''absent'' then main_absent api p pool address port
       else if p_state p = ''present'' then main_present api p pool address port
       else ret \<lparr>changed = False, deleted = None\<rparr>))"

text \<open>
  The end of \<^verbatim>\<open>main\<close>: the handler \<^verbatim>\<open>except Exception as e\<close> turns an exception into
  \<^verbatim>\<open>fail_json\<close>; without one the run ends in \<^verbatim>\<open>exit_json\<close>.
\<close>

fun finish :: "(abort + result) \<times> 'd st \<Rightarrow> outcome \<times> call list \<times> 'd" where
  "finish (Inr res, s) = (Exit_json res, s)"
| "finish (Inl (FailJson msg), s) = (Fail_json msg, s)"
| "finish (Inl (Raised e), s) = (Fail_json (''received exception: '' @ exn_str e), s)"

text \<open>
  Lines 406 to 446, the constructor and the checks before the \<^verbatim>\<open>try\<close> statement: the
  failure they end the run with, if any. Line 445 compares the port, which is present
  once the constructor has accepted the parameters.
\<close>

definition checks :: "env \<Rightarrow> params \<Rightarrow> outcome option" where
  "checks e p =
     (if \<not> argument_spec_ok p then Some Argument_spec_failure
      else if \<not> bigsuds_found e then
        Some (Fail_json ''the python bigsuds module is required'')
      else if p_validate_certs p \<and> \<not> ssl_has_SSLContext e then
        Some (Fail_json (''bigsuds does not support verifying certificates with python < 2.7.9. '' @
                         ''Either update python or set validate_certs=False on the task''))
      else if (truthy (p_host p) \<and> p_port p = None) \<or> (p_port p \<noteq> None \<and> \<not> truthy (p_host p)) then
        Some (Fail_json ''both host and port must be supplied'')
      else
        (case p_port p of
           None \<Rightarrow> Some Argument_spec_failure
         | Some port \<Rightarrow>
             if 0 > port \<or> port > 65535 then
               Some (Fail_json ''valid ports must be in range 0 - 65535'')
             else None))"

text \<open>
  A whole run, from the parameters and the device to the outcome, the calls issued in
  order, and the device afterwards. The parameters \<^verbatim>\<open>pool\<close>, \<^verbatim>\<open>host\<close> and \<^verbatim>\<open>port\<close> are
  present once \<open>checks\<close> has passed.
\<close>

definition main :: "env \<Rightarrow> 'd api \<Rightarrow> params \<Rightarrow> 'd \<Rightarrow> outcome \<times> call list \<times> 'd" where
  "main e api p d =
     (case checks e p of
        Some failure \<Rightarrow> (failure, [], d)
      | None \<Rightarrow>
          (case (p_pool p, p_host p, p_port p) of
             (Some pool_name, Some host, Some port) \<Rightarrow>
               finish (main_try api p (fqdn_name e (p_partition p) pool_name)
                         (fqdn_name e (p_partition p) host) port ([], d))
           | _ \<Rightarrow> (Argument_spec_failure, [], d)))"


section \<open>A client whose writes are durable\<close>

text \<open>
  The device behind such a client is a store: the pools, the node addresses, and the
  members with the attributes the module reads and writes. A getter returns what the
  store holds; a setter replaces one attribute of one member and nothing else; adding
  and removing a member changes the member table.
\<close>

record member =
  m_connection_limit :: int
  m_description :: string
  m_rate_limit :: int
  m_ratio :: int
  m_priority :: int
  m_session_status :: string
  m_monitor_status :: string

type_synonym member_key = "string \<times> string \<times> int"

record device =
  dev_pools :: "string list"
  dev_nodes :: "string list"
  dev_members :: "(member_key \<times> member) list"

text \<open>
  What the store does not fix: the attributes a new member starts with, and the status
  name a member reports after a state token (\<^verbatim>\<open>STATE_ENABLED\<close>, \<^verbatim>\<open>STATE_DISABLED\<close>) has
  been written to it.
\<close>

record store_cfg =
  new_member :: member
  session_status_after :: "string \<Rightarrow> string"
  monitor_status_after :: "string \<Rightarrow> string"

definition not_found :: "string \<Rightarrow> exn" where
  "not_found what = OperationFailed (''01020036:3: The requested '' @ what @ '' was not found.'')"

definition node_referenced :: "string \<Rightarrow> exn" where
  "node_referenced address =
     OperationFailed (''01070110:3: Node address '' @ address @
                      '' is referenced by a member of pool.'')"

definition already_exists :: "string \<Rightarrow> exn" where
  "already_exists what = OperationFailed (''01020066:3: The requested '' @ what @ '' already exists.'')"

definition read_member ::
  "device \<Rightarrow> member_key \<Rightarrow> (member \<Rightarrow> pyval) \<Rightarrow> (exn + pyval) \<times> device" where
  "read_member d k f =
     (case map_of (dev_members d) k of
        None \<Rightarrow> (Inl (not_found ''pool member''), d)
      | Some m \<Rightarrow> (Inr (f m), d))"

definition write_member ::
  "device \<Rightarrow> member_key \<Rightarrow> (member \<Rightarrow> member) \<Rightarrow> (exn + pyval) \<times> device" where
  "write_member d k f =
     (case map_of (dev_members d) k of
        None \<Rightarrow> (Inl (not_found ''pool member''), d)
      | Some m \<Rightarrow> (Inr PNone, d\<lparr>dev_members := AList.update k (f m) (dev_members d)\<rparr>))"

fun store_api :: "store_cfg \<Rightarrow> device \<Rightarrow> call \<Rightarrow> (exn + pyval) \<times> device" where
  "store_api cfg d (BigipApi _ _ _ _ _) = (Inr PNone, d)"
| "store_api cfg d (Get_object_status pool) =
     (if pool \<in> set (dev_pools d) then (Inr PNone, d) else (Inl (not_found ''pool''), d))"
| "store_api cfg d (Get_member_object_status pool address port) =
     (if pool \<in> set (dev_pools d) then read_member d (pool, address, port) (\<lambda>_. PNone)
      else (Inl (not_found ''pool''), d))"
| "store_api cfg d (Add_member_v2 pool address port) =
     (if pool \<notin> set (dev_pools d) then (Inl (not_found ''pool''), d)
      else if map_of (dev_members d) (pool, address, port) \<noteq> None then
        (Inl (already_exists ''pool member''), d)
      else (Inr PNone,
            d\<lparr>dev_nodes := List.insert address (dev_nodes d),
               dev_members := AList.update (pool, address, port) (new_member cfg) (dev_members d)\<rparr>))"
| "store_api cfg d (Remove_member_v2 pool address port) =
     (if map_of (dev_members d) (pool, address, port) = None then
        (Inl (not_found ''pool member''), d)
      else (Inr PNone, d\<lparr>dev_members := AList.delete (pool, address, port) (dev_members d)\<rparr>))"
| "store_api cfg d (Delete_node_address address) =
     (if list_ex (\<lambda>((_, a, _), _). a = address) (dev_members d) then
        (Inl (node_referenced address), d)
      else if address \<notin> set (dev_nodes d) then (Inl (not_found ''node''), d)
      else (Inr PNone, d\<lparr>dev_nodes := removeAll address (dev_nodes d)\<rparr>))"
| "store_api cfg d (Get_member_connection_limit pool address port) =
     read_member d (pool, address, port) (\<lambda>m. PInt (m_connection_limit m))"
| "store_api cfg d (Set_member_connection_limit pool address port v) =
     write_member d (pool, address, port) (\<lambda>m. m\<lparr>m_connection_limit := v\<rparr>)"
| "store_api cfg d (Get_member_description pool address port) =
     read_member d (pool, address, port) (\<lambda>m. PStr (m_description m))"
| "store_api cfg d (Set_member_description pool address port v) =
     write_member d (pool, address, port) (\<lambda>m. m\<lparr>m_description := v\<rparr>)"
| "store_api cfg d (Get_member_rate_limit pool address port) =
     read_member d (pool, address, port) (\<lambda>m. PInt (m_rate_limit m))"
| "store_api cfg d (Set_member_rate_limit pool address port v) =
     write_member d (pool, address, port) (\<lambda>m. m\<lparr>m_rate_limit := v\<rparr>)"
| "store_api cfg d (Get_member_ratio pool address port) =
     read_member d (pool, address, port) (\<lambda>m. PInt (m_ratio m))"
| "store_api cfg d (Set_member_ratio pool address port v) =
     write_member d (pool, address, port) (\<lambda>m. m\<lparr>m_ratio := v\<rparr>)"
| "store_api cfg d (Get_member_priority pool address port) =
     read_member d (pool, address, port) (\<lambda>m. PInt (m_priority m))"
| "store_api cfg d (Set_member_priority pool address port v) =
     write_member d (pool, address, port) (\<lambda>m. m\<lparr>m_priority := v\<rparr>)"
| "store_api cfg d (Get_member_session_status pool address port) =
     read_member d (pool, address, port) (\<lambda>m. PStr (m_session_status m))"
| "store_api cfg d (Set_member_session_enabled_state pool address port token) =
     write_member d (pool, address, port)
       (\<lambda>m. m\<lparr>m_session_status := session_status_after cfg token\<rparr>)"
| "store_api cfg d (Get_member_monitor_status pool address port) =
     read_member d (pool, address, port) (\<lambda>m. PStr (m_monitor_status m))"
| "store_api cfg d (Set_member_monitor_state pool address port token) =
     write_member d (pool, address, port)
       (\<lambda>m. m\<lparr>m_monitor_status := monitor_status_after cfg token\<rparr>)"


section \<open>Concrete environments, clients and runs\<close>

definition env0 :: env where
  "env0 = \<lparr>bigsuds_found = True, ssl_has_SSLContext = True,
           fqdn_name = (\<lambda>partition name. ''/'' @ partition @ ''/'' @ name)\<rparr>"

definition cfg0 :: store_cfg where
  "cfg0 = \<lparr>new_member = \<lparr>m_connection_limit = 0, m_description = [], m_rate_limit = 0,
                          m_ratio = 1, m_priority = 0,
                          m_session_status = ''SESSION_STATUS_ENABLED'',
                          m_monitor_status = ''MONITOR_STATUS_UP''\<rparr>,
           session_status_after = (\<lambda>token. if token = ''STATE_DISABLED''
              then ''SESSION_STATUS_FORCED_DISABLED'' else ''SESSION_STATUS_ENABLED''),
           monitor_status_after = (\<lambda>token. if token = ''STATE_DISABLED''
              then ''MONITOR_STATUS_FORCED_DOWN'' else ''MONITOR_STATUS_UP'')\<rparr>"

text \<open>Parameters for member 10.0.0.5:80 of pool web in partition Common, nothing else supplied.\<close>

definition params0 :: params where
  "params0 = \<lparr>p_server = ''lb.mydomain.com'', p_server_port = 443, p_user = ''admin'',
              p_password = ''secret'', p_state = ''present'', p_partition = ''Common'',
              p_validate_certs = True, p_session_state = None, p_monitor_state = None,
              p_pool = Some ''web'', p_host = Some ''10.0.0.5'', p_port = Some 80,
              p_connection_limit = None, p_description = None, p_rate_limit = None,
              p_ratio = None, p_preserve_node = False, p_priority_group = None,
              p_check_mode = False\<rparr>"

definition member0 :: member where
  "member0 = \<lparr>m_connection_limit = 0, m_description = [], m_rate_limit = 0,
              m_ratio = 1, m_priority = 0,
              m_session_status = ''SESSION_STATUS_FORCED_DISABLED'',
              m_monitor_status = ''MONITOR_STATUS_DOWN''\<rparr>"

text \<open>Devices: no pool; the pool without members; the pool with the member.\<close>

definition dev_empty :: device where
  "dev_empty = \<lparr>dev_pools = [], dev_nodes = [], dev_members = []\<rparr>"

definition dev_pool :: device where
  "dev_pool = \<lparr>dev_pools = [''/Common/web''], dev_nodes = [], dev_members = []\<rparr>"

definition dev_member :: device where
  "dev_member = \<lparr>dev_pools = [''/Common/web''], dev_nodes = [''/Common/10.0.0.5''],
                 dev_members = [((''/Common/web'', ''/Common/10.0.0.5'', 80), member0)]\<rparr>"

text \<open>The same member is also in a second pool, so its node is still referenced.\<close>

definition dev_shared :: device where
  "dev_shared = \<lparr>dev_pools = [''/Common/web'', ''/Common/api''],
                 dev_nodes = [''/Common/10.0.0.5''],
                 dev_members = [((''/Common/web'', ''/Common/10.0.0.5'', 80), member0),
                                ((''/Common/api'', ''/Common/10.0.0.5'', 8080), member0)]\<rparr>"

text \<open>A client every call of which fails with the given message.\<close>

definition failing_api :: "string \<Rightarrow> unit api" where
  "failing_api msg d c = (Inl (OperationFailed msg), d)"


section \<open>Sequences of calls\<close>

text \<open>
  The device after a list of calls has been issued in order, and whether each of them
  returns (rather than raises) at the point where it is issued.
\<close>

definition device_after :: "'d api \<Rightarrow> call list \<Rightarrow> 'd \<Rightarrow> 'd" where
  "device_after api cs d = fold (\<lambda>c d'. snd (api d' c)) cs d"

fun all_succeed :: "'d api \<Rightarrow> call list \<Rightarrow> 'd \<Rightarrow> bool" where
  "all_succeed api [] d = True"
| "all_succeed api (c # cs) d =
     (case api d c of (Inr _, d') \<Rightarrow> all_succeed api cs d' | (Inl _, _) \<Rightarrow> False)"

text \<open>
  A statement issues exactly the calls \<open>cs\<close>: from any state in which they all
  succeed, it returns, having appended them to the log in that order.
\<close>

definition issues :: "'d api \<Rightarrow> ('d, unit) act \<Rightarrow> call list \<Rightarrow> bool" where
  "issues api m cs =
     (\<forall>log d. all_succeed api cs d \<longrightarrow>
        m (log, d) = (Inr (), (log @ cs, device_after api cs d)))"

text \<open>
  The calls of the creation path as the specification lists them: the creation of the
  member, then one setter for each supplied attribute, in the order connection limit,
  description, rate limit, ratio, session state, monitor state, priority group.
\<close>

definition supplied :: "'a option \<Rightarrow> ('a \<Rightarrow> call) \<Rightarrow> call list" where
  "supplied v c = (case v of None \<Rightarrow> [] | Some x \<Rightarrow> [c x])"

definition create_calls :: "params \<Rightarrow> string \<Rightarrow> string \<Rightarrow> int \<Rightarrow> call list" where
  "create_calls p pool address port =
     [Add_member_v2 pool address port] @
     supplied (p_connection_limit p) (Set_member_connection_limit pool address port) @
     supplied (p_description p) (Set_member_description pool address port) @
     supplied (p_rate_limit p) (Set_member_rate_limit pool address port) @
     supplied (p_ratio p) (Set_member_ratio pool address port) @
     supplied (p_session_state p)
       (\<lambda>v. Set_member_session_enabled_state pool address port (''STATE_'' @ upper (strip v))) @
     supplied (p_monitor_state p)
       (\<lambda>v. Set_member_monitor_state pool address port (''STATE_'' @ upper (strip v))) @
     supplied (p_priority_group p) (Set_member_priority pool address port)"


section \<open>Intent against live status\<close>

text \<open>
  When a live status contradicts the desired intent, in the words of the specification:
  the intent enabled is violated only by the forced sentinel; the intent disabled is
  violated by every status other than the sentinel.
\<close>

definition violated :: "string \<Rightarrow> string \<Rightarrow> string \<Rightarrow> bool" where
  "violated sentinel intent status =
     (if intent = ''enabled'' then status = sentinel
      else if intent = ''disabled'' then status \<noteq> sentinel
      else False)"


section \<open>Properties of statements\<close>

text \<open>A statement that, when it returns a result, returns one without the key \<^verbatim>\<open>deleted\<close>.\<close>

definition no_deleted :: "('d, result) act \<Rightarrow> bool" where
  "no_deleted m = (\<forall>s res s'. m s = (Inr res, s') \<longrightarrow> deleted res = None)"


text \<open>A statement that adds no write to a log that has none.\<close>

definition reads_only :: "('d, 'a) act \<Rightarrow> bool" where
  "reads_only m =
     (\<forall>s r s'. m s = (r, s') \<longrightarrow> (\<forall>c \<in> set (fst s). \<not> is_write c) \<longrightarrow>
        (\<forall>c \<in> set (fst s'). \<not> is_write c))"

text \<open>
  Two runs agree when they are the same run, or when each of them either aborts or
  returns a result with changed = True.
\<close>

definition flagged :: "(abort + result) \<times> 'd st \<Rightarrow> bool" where
  "flagged x = (case fst x of Inl _ \<Rightarrow> True | Inr res \<Rightarrow> changed res)"

definition agree :: "(abort + result) \<times> 'd st \<Rightarrow> (abort + result) \<times> 'd st \<Rightarrow> bool" where
  "agree x y = (x = y \<or> (flagged x \<and> flagged y))"

definition agrees :: "('a \<Rightarrow> ('d, result) act) \<Rightarrow> ('a \<Rightarrow> ('d, result) act) \<Rightarrow> bool" where
  "agrees f g = (\<forall>r s. agree (f r s) (g r s))"

text \<open>A statement that never takes back changed = True.\<close>

definition keeps_changed :: "(result \<Rightarrow> ('d, result) act) \<Rightarrow> bool" where
  "keeps_changed f = (\<forall>r s. changed r \<longrightarrow> flagged (f r s))"


section \<open>Durable writes and settled devices\<close>








section \<open>Basic facts about running code\<close>

lemma bind_act_Inr: "m s = (Inr x, s') \<Longrightarrow> bind_act m f s = f x s'"
  by (simp add: bind_act_def)

lemma main_checked:
  "checks e p = None \<Longrightarrow> p_pool p = Some pool_name \<Longrightarrow> p_host p = Some host \<Longrightarrow>
   p_port p = Some port \<Longrightarrow>
   main e api p d =
     finish (main_try api p (fqdn_name e (p_partition p) pool_name)
               (fqdn_name e (p_partition p) host) port ([], d))"
  by (simp add: main_def)

lemma main_try_pool_ok:
  "api d (BigipApi (p_server p) (p_user p) (p_password p) (p_validate_certs p) (p_server_port p))
     = (Inr v, d1) \<Longrightarrow>
   api d1 (Get_object_status pool) = (Inr u, d2) \<Longrightarrow>
   main_try api p pool address port ([], d) =
     (if p_state p = ''absent'' then main_absent api p pool address port
      else if p_state p = ''present'' then main_present api p pool address port
      else ret \<lparr>changed = False, deleted = None\<rparr>)
     ([BigipApi (p_server p) (p_user p) (p_password p) (p_validate_certs p) (p_server_port p),
       Get_object_status pool], d2)"
  by (simp add: main_try_def bind_act_def do_call_def invoke_def pool_exists_def)


lemma checks_params0: "checks env0 params0 = None"
  by (simp add: checks_def env0_def params0_def argument_spec_ok_def in_choices_def truthy_def)


section \<open>The existence probes\<close>

text \<open>
  Claim C6. \<^verbatim>\<open>pool_exists\<close> and \<^verbatim>\<open>member_exists\<close> issue one status query. They return
  true when the query succeeds, false when it fails with an operation failure whose
  message contains "was not found", and let any other failure propagate unchanged; the
  not-found failure itself is never raised.
\<close>

theorem probes_not_found_is_false:
  "(\<forall>v. api d (Get_object_status pool) = (Inr v, d') \<longrightarrow>
        pool_exists api pool (log, d) = (Inr True, (log @ [Get_object_status pool], d'))) \<and>
   (\<forall>msg. api d (Get_object_status pool) = (Inl (OperationFailed msg), d') \<longrightarrow>
        pool_exists api pool (log, d) =
          (if str_in ''was not found'' msg then Inr False else Inl (Raised (OperationFailed msg)),
           (log @ [Get_object_status pool], d'))) \<and>
   (\<forall>msg. api d (Get_object_status pool) = (Inl (OtherException msg), d') \<longrightarrow>
        pool_exists api pool (log, d) =
          (Inl (Raised (OtherException msg)), (log @ [Get_object_status pool], d'))) \<and>
   (\<forall>v. api d (Get_member_object_status pool address port) = (Inr v, d') \<longrightarrow>
        member_exists api pool address port (log, d) =
          (Inr True, (log @ [Get_member_object_status pool address port], d'))) \<and>
   (\<forall>msg. api d (Get_member_object_status pool address port) = (Inl (OperationFailed msg), d') \<longrightarrow>
        member_exists api pool address port (log, d) =
          (if str_in ''was not found'' msg then Inr False else Inl (Raised (OperationFailed msg)),
           (log @ [Get_member_object_status pool address port], d'))) \<and>
   (\<forall>msg. api d (Get_member_object_status pool address port) = (Inl (OtherException msg), d') \<longrightarrow>
        member_exists api pool address port (log, d) =
          (Inl (Raised (OtherException msg)),
           (log @ [Get_member_object_status pool address port], d')))"
  by (simp add: pool_exists_def member_exists_def invoke_def)

theorem probes_not_found_is_false_witness:
  "pool_exists (store_api cfg0) ''/Common/web'' ([], dev_pool) =
     (Inr True, ([Get_object_status ''/Common/web''], dev_pool)) \<and>
   pool_exists (store_api cfg0) ''/Common/web'' ([], dev_empty) =
     (Inr False, ([Get_object_status ''/Common/web''], dev_empty)) \<and>
   pool_exists (failing_api ''connection reset'') ''/Common/web'' ([], ()) =
     (Inl (Raised (OperationFailed ''connection reset'')), ([Get_object_status ''/Common/web''], ())) \<and>
   member_exists (store_api cfg0) ''/Common/web'' ''/Common/10.0.0.5'' 80 ([], dev_member) =
     (Inr True, ([Get_member_object_status ''/Common/web'' ''/Common/10.0.0.5'' 80], dev_member)) \<and>
   member_exists (store_api cfg0) ''/Common/web'' ''/Common/10.0.0.5'' 80 ([], dev_pool) =
     (Inr False, ([Get_member_object_status ''/Common/web'' ''/Common/10.0.0.5'' 80], dev_pool)) \<and>
   member_exists (failing_api ''connection reset'') ''/Common/web'' ''/Common/10.0.0.5'' 80 ([], ()) =
     (Inl (Raised (OperationFailed ''connection reset'')),
      ([Get_member_object_status ''/Common/web'' ''/Common/10.0.0.5'' 80], ()))"
proof -
  have a: "store_api cfg0 dev_pool (Get_object_status ''/Common/web'') = (Inr PNone, dev_pool)"
    by (simp add: dev_pool_def)
  have b: "store_api cfg0 dev_empty (Get_object_status ''/Common/web'')
             = (Inl (OperationFailed ''01020036:3: The requested pool was not found.''), dev_empty)"
    by (simp add: dev_empty_def not_found_def)
  have c: "failing_api ''connection reset'' () (Get_object_status ''/Common/web'')
             = (Inl (OperationFailed ''connection reset''), ())"
    by (simp add: failing_api_def)
  have a': "store_api cfg0 dev_member (Get_member_object_status ''/Common/web'' ''/Common/10.0.0.5'' 80)
              = (Inr PNone, dev_member)"
    by (simp add: dev_member_def read_member_def)
  have b': "store_api cfg0 dev_pool (Get_member_object_status ''/Common/web'' ''/Common/10.0.0.5'' 80)
              = (Inl (OperationFailed ''01020036:3: The requested pool member was not found.''),
                 dev_pool)"
    by (simp add: dev_pool_def read_member_def not_found_def)
  have c': "failing_api ''connection reset'' ()
              (Get_member_object_status ''/Common/web'' ''/Common/10.0.0.5'' 80)
              = (Inl (OperationFailed ''connection reset''), ())"
    by (simp add: failing_api_def)
  show ?thesis
    using probes_not_found_is_false [where api = "store_api cfg0" and d = dev_pool
             and d' = dev_pool and pool = "''/Common/web''" and log = "[]"
             and address = "''/Common/10.0.0.5''" and port = 80]
          probes_not_found_is_false [where api = "store_api cfg0" and d = dev_empty
             and d' = dev_empty and pool = "''/Common/web''" and log = "[]"]
          probes_not_found_is_false [where api = "failing_api ''connection reset''" and d = "()"
             and d' = "()" and pool = "''/Common/web''" and log = "[]"
             and address = "''/Common/10.0.0.5''" and port = 80]
          probes_not_found_is_false [where api = "store_api cfg0" and d = dev_member
             and d' = dev_member and pool = "''/Common/web''" and log = "[]"
             and address = "''/Common/10.0.0.5''" and port = 80]
          a b c a' b' c'
    by simp
qed


lemma checks_state: "checks e (p\<lparr>p_state := x\<rparr>) = checks e p"
  by (simp add: checks_def argument_spec_ok_def)

lemma checks_check_mode: "checks e (p\<lparr>p_check_mode := x\<rparr>) = checks e p"
  by (simp add: checks_def argument_spec_ok_def)


section \<open>A missing pool\<close>

text \<open>
  Claim C7. When the pool probe reports the pool absent, the run fails with the message
  that the pool does not exist; the calls issued are the opening of the session and that
  one probe, so no call about the member is made.
\<close>

theorem missing_pool_fails_after_one_probe:
  assumes "checks e p = None"
    and "p_pool p = Some pool_name" and "p_host p = Some host" and "p_port p = Some port"
    and "api d (BigipApi (p_server p) (p_user p) (p_password p) (p_validate_certs p)
                  (p_server_port p)) = (Inr v, da)"
    and "api da (Get_object_status (fqdn_name e (p_partition p) pool_name))
           = (Inl (OperationFailed msg), db)"
    and "str_in ''was not found'' msg"
  shows "main e api p d =
     (Fail_json (''pool '' @ fqdn_name e (p_partition p) pool_name @ '' does not exist''),
      [BigipApi (p_server p) (p_user p) (p_password p) (p_validate_certs p) (p_server_port p),
       Get_object_status (fqdn_name e (p_partition p) pool_name)],
      db)"
  using assms
  by (simp add: main_checked main_try_def bind_act_def do_call_def invoke_def pool_exists_def
        fail_json_def)

theorem missing_pool_fails_after_one_probe_witness:
  "main env0 (store_api cfg0) params0 dev_empty =
     (Fail_json ''pool /Common/web does not exist'',
      [BigipApi ''lb.mydomain.com'' ''admin'' ''secret'' True 443,
       Get_object_status ''/Common/web''],
      dev_empty)"
proof -
  have h1: "p_pool params0 = Some ''web''" and h2: "p_host params0 = Some ''10.0.0.5''"
    and h3: "p_port params0 = Some 80"
    by (simp_all add: params0_def)
  have h4: "store_api cfg0 dev_empty
              (BigipApi (p_server params0) (p_user params0) (p_password params0)
                 (p_validate_certs params0) (p_server_port params0)) = (Inr PNone, dev_empty)"
    by simp
  have h5: "store_api cfg0 dev_empty (Get_object_status (fqdn_name env0 (p_partition params0) ''web''))
              = (Inl (OperationFailed ''01020036:3: The requested pool was not found.''), dev_empty)"
    by (simp add: dev_empty_def not_found_def)
  have h6: "str_in ''was not found'' ''01020036:3: The requested pool was not found.''"
    by simp
  show ?thesis
    using missing_pool_fails_after_one_probe [where api = "store_api cfg0" and d = dev_empty
            and da = dev_empty and db = dev_empty, OF checks_params0 h1 h2 h3 h4 h5 h6]
    by (simp add: params0_def env0_def)
qed


section \<open>Removing a member that is not there\<close>

text \<open>
  Claim C8. With state absent and a member probe that reports the member absent, the
  result is changed = False without a deleted key, and the calls issued are the opening of
  the session, the pool probe and the member probe: no removal, no node deletion, no
  setter.
\<close>

theorem absent_missing_member_is_noop:
  assumes "checks e p = None"
    and "p_pool p = Some pool_name" and "p_host p = Some host" and "p_port p = Some port"
    and "p_state p = ''absent''"
    and "api d (BigipApi (p_server p) (p_user p) (p_password p) (p_validate_certs p)
                  (p_server_port p)) = (Inr v, da)"
    and "api da (Get_object_status (fqdn_name e (p_partition p) pool_name)) = (Inr u, db)"
    and "api db (Get_member_object_status (fqdn_name e (p_partition p) pool_name)
                   (fqdn_name e (p_partition p) host) port) = (Inl (OperationFailed msg), dc)"
    and "str_in ''was not found'' msg"
  shows "main e api p d =
     (Exit_json \<lparr>changed = False, deleted = None\<rparr>,
      [BigipApi (p_server p) (p_user p) (p_password p) (p_validate_certs p) (p_server_port p),
       Get_object_status (fqdn_name e (p_partition p) pool_name),
       Get_member_object_status (fqdn_name e (p_partition p) pool_name)
         (fqdn_name e (p_partition p) host) port],
      dc)"
  using assms
  by (simp add: main_checked main_try_pool_ok main_absent_def bind_act_def member_exists_def
        invoke_def ret_def)

theorem absent_missing_member_is_noop_witness:
  "main env0 (store_api cfg0) (params0\<lparr>p_state := ''absent''\<rparr>) dev_pool =
     (Exit_json \<lparr>changed = False, deleted = None\<rparr>,
      [BigipApi ''lb.mydomain.com'' ''admin'' ''secret'' True 443,
       Get_object_status ''/Common/web'',
       Get_member_object_status ''/Common/web'' ''/Common/10.0.0.5'' 80],
      dev_pool)"
proof -
  let ?p = "params0\<lparr>p_state := ''absent''\<rparr>"
  have h0: "checks env0 ?p = None"
    by (simp add: checks_state checks_params0)
  have h1: "p_pool ?p = Some ''web''" and h2: "p_host ?p = Some ''10.0.0.5''"
    and h3: "p_port ?p = Some 80" and h4: "p_state ?p = ''absent''"
    by (simp_all add: params0_def)
  have h5: "store_api cfg0 dev_pool
              (BigipApi (p_server ?p) (p_user ?p) (p_password ?p)
                 (p_validate_certs ?p) (p_server_port ?p)) = (Inr PNone, dev_pool)"
    by simp
  have h6: "store_api cfg0 dev_pool (Get_object_status (fqdn_name env0 (p_partition ?p) ''web''))
              = (Inr PNone, dev_pool)"
    by (simp add: dev_pool_def env0_def params0_def)
  have h7: "store_api cfg0 dev_pool
              (Get_member_object_status (fqdn_name env0 (p_partition ?p) ''web'')
                 (fqdn_name env0 (p_partition ?p) ''10.0.0.5'') 80)
              = (Inl (OperationFailed ''01020036:3: The requested pool member was not found.''),
                 dev_pool)"
    by (simp add: dev_pool_def env0_def params0_def read_member_def not_found_def)
  have h8: "str_in ''was not found'' ''01020036:3: The requested pool member was not found.''"
    by simp
  show ?thesis
    using absent_missing_member_is_noop [where api = "store_api cfg0" and d = dev_pool
            and da = dev_pool and db = dev_pool and dc = dev_pool, OF h0 h1 h2 h3 h4 h5 h6 h7 h8]
    by (simp add: params0_def env0_def)
qed


section \<open>Validation of host and port\<close>

text \<open>
  Claim C9. When the port is below 0 or above 65535, or the host is given without a port,
  or a port without a (non-empty) host, the run ends in a failure before any call to the
  client: the log is empty and the device untouched. With \<^verbatim>\<open>bigsuds\<close> present the failure
  is one of the validation failures. Ports 0 and 65535 pass the checks, and the run goes
  on to the \<^verbatim>\<open>try\<close> statement.
\<close>

theorem validation_fails_before_any_call:
  "(((\<exists>port. p_port p = Some port \<and> (port < 0 \<or> 65535 < port)) \<or>
     (p_host p \<noteq> None \<and> p_port p = None) \<or>
     (p_port p \<noteq> None \<and> \<not> truthy (p_host p))) \<longrightarrow>
    (\<exists>out. main e api p d = (out, [], d) \<and> (\<forall>res. out \<noteq> Exit_json res) \<and>
       (bigsuds_found e \<and> (p_validate_certs p \<longrightarrow> ssl_has_SSLContext e) \<longrightarrow>
        out \<in> {Argument_spec_failure, Fail_json ''both host and port must be supplied'',
               Fail_json ''valid ports must be in range 0 - 65535''}))) \<and>
   (argument_spec_ok p \<and> bigsuds_found e \<and> (p_validate_certs p \<longrightarrow> ssl_has_SSLContext e) \<and>
    truthy (p_host p) \<and> (p_port p = Some 0 \<or> p_port p = Some 65535) \<longrightarrow>
    checks e p = None \<and>
    (\<exists>pool_name host port. p_pool p = Some pool_name \<and> p_host p = Some host \<and>
       p_port p = Some port \<and>
       main e api p d =
         finish (main_try api p (fqdn_name e (p_partition p) pool_name)
                   (fqdn_name e (p_partition p) host) port ([], d))))"
proof (intro conjI impI)
  assume bad: "(\<exists>port. p_port p = Some port \<and> (port < 0 \<or> 65535 < port)) \<or>
     (p_host p \<noteq> None \<and> p_port p = None) \<or>
     (p_port p \<noteq> None \<and> \<not> truthy (p_host p))"
  then have "checks e p \<noteq> None"
    by (auto simp: checks_def argument_spec_ok_def)
  then obtain out where out: "checks e p = Some out"
    by blast
  have "out \<noteq> Exit_json res" for res
    using out by (auto simp: checks_def split: if_splits option.splits)
  moreover have "out \<in> {Argument_spec_failure, Fail_json ''both host and port must be supplied'',
               Fail_json ''valid ports must be in range 0 - 65535''}"
    if "bigsuds_found e \<and> (p_validate_certs p \<longrightarrow> ssl_has_SSLContext e)"
    using out that by (auto simp: checks_def split: if_splits option.splits)
  ultimately show "\<exists>out. main e api p d = (out, [], d) \<and> (\<forall>res. out \<noteq> Exit_json res) \<and>
       (bigsuds_found e \<and> (p_validate_certs p \<longrightarrow> ssl_has_SSLContext e) \<longrightarrow>
        out \<in> {Argument_spec_failure, Fail_json ''both host and port must be supplied'',
               Fail_json ''valid ports must be in range 0 - 65535''})"
    using out by (simp add: main_def)
next
  assume ok: "argument_spec_ok p \<and> bigsuds_found e \<and>
    (p_validate_certs p \<longrightarrow> ssl_has_SSLContext e) \<and>
    truthy (p_host p) \<and> (p_port p = Some 0 \<or> p_port p = Some 65535)"
  then show c: "checks e p = None"
    by (auto simp: checks_def)
  from ok obtain pool_name host port where
    "p_pool p = Some pool_name" "p_host p = Some host" "p_port p = Some port"
    by (auto simp: argument_spec_ok_def)
  then show "\<exists>pool_name host port. p_pool p = Some pool_name \<and> p_host p = Some host \<and>
       p_port p = Some port \<and>
       main e api p d =
         finish (main_try api p (fqdn_name e (p_partition p) pool_name)
                   (fqdn_name e (p_partition p) host) port ([], d))"
    using c by (simp add: main_checked)
qed

theorem validation_fails_before_any_call_witness:
  "main env0 (store_api cfg0) (params0\<lparr>p_port := Some 70000\<rparr>) dev_member =
     (Fail_json ''valid ports must be in range 0 - 65535'', [], dev_member) \<and>
   main env0 (store_api cfg0) (params0\<lparr>p_port := Some (- 1)\<rparr>) dev_member =
     (Fail_json ''valid ports must be in range 0 - 65535'', [], dev_member) \<and>
   main env0 (store_api cfg0) (params0\<lparr>p_port := None\<rparr>) dev_member =
     (Argument_spec_failure, [], dev_member) \<and>
   main env0 (store_api cfg0) (params0\<lparr>p_host := Some []\<rparr>) dev_member =
     (Fail_json ''both host and port must be supplied'', [], dev_member) \<and>
   checks env0 (params0\<lparr>p_port := Some 0\<rparr>) = None \<and>
   checks env0 (params0\<lparr>p_port := Some 65535\<rparr>) = None"
proof -
  let ?bad = "\<lambda>p. (\<exists>port. p_port p = Some port \<and> (port < 0 \<or> 65535 < port)) \<or>
     (p_host p \<noteq> None \<and> p_port p = None) \<or> (p_port p \<noteq> None \<and> \<not> truthy (p_host p))"
  let ?ok = "\<lambda>p. argument_spec_ok p \<and> bigsuds_found env0 \<and>
     (p_validate_certs p \<longrightarrow> ssl_has_SSLContext env0) \<and> truthy (p_host p) \<and>
     (p_port p = Some 0 \<or> p_port p = Some 65535)"
  have b1: "?bad (params0\<lparr>p_port := Some 70000\<rparr>)" by simp
  have b2: "?bad (params0\<lparr>p_port := Some (- 1)\<rparr>)" by simp
  have b3: "?bad (params0\<lparr>p_port := None\<rparr>)" by (simp add: params0_def)
  have b4: "?bad (params0\<lparr>p_host := Some []\<rparr>)" by (simp add: params0_def truthy_def)
  have o1: "?ok (params0\<lparr>p_port := Some 0\<rparr>)"
    by (simp add: params0_def env0_def argument_spec_ok_def in_choices_def truthy_def)
  have o2: "?ok (params0\<lparr>p_port := Some 65535\<rparr>)"
    by (simp add: params0_def env0_def argument_spec_ok_def in_choices_def truthy_def)
  note t = validation_fails_before_any_call [where e = env0 and api = "store_api cfg0"
             and d = dev_member]
  have "checks env0 (params0\<lparr>p_port := Some 0\<rparr>) = None"
    using t [of "params0\<lparr>p_port := Some 0\<rparr>"] o1 by blast
  moreover have "checks env0 (params0\<lparr>p_port := Some 65535\<rparr>) = None"
    using t [of "params0\<lparr>p_port := Some 65535\<rparr>"] o2 by blast
  moreover have "main env0 (store_api cfg0) (params0\<lparr>p_port := Some 70000\<rparr>) dev_member =
     (Fail_json ''valid ports must be in range 0 - 65535'', [], dev_member)"
    using t [of "params0\<lparr>p_port := Some 70000\<rparr>"] b1
    by (simp add: main_def checks_def params0_def env0_def argument_spec_ok_def in_choices_def
          truthy_def)
  moreover have "main env0 (store_api cfg0) (params0\<lparr>p_port := Some (- 1)\<rparr>) dev_member =
     (Fail_json ''valid ports must be in range 0 - 65535'', [], dev_member)"
    using t [of "params0\<lparr>p_port := Some (- 1)\<rparr>"] b2
    by (simp add: main_def checks_def params0_def env0_def argument_spec_ok_def in_choices_def
          truthy_def)
  moreover have "main env0 (store_api cfg0) (params0\<lparr>p_port := None\<rparr>) dev_member =
     (Argument_spec_failure, [], dev_member)"
    using t [of "params0\<lparr>p_port := None\<rparr>"] b3
    by (simp add: main_def checks_def params0_def env0_def argument_spec_ok_def in_choices_def
          truthy_def)
  moreover have "main env0 (store_api cfg0) (params0\<lparr>p_host := Some []\<rparr>) dev_member =
     (Fail_json ''both host and port must be supplied'', [], dev_member)"
    using t [of "params0\<lparr>p_host := Some []\<rparr>"] b4
    by (simp add: main_def checks_def params0_def env0_def argument_spec_ok_def in_choices_def
          truthy_def)
  ultimately show ?thesis by blast
qed


section \<open>Removing a member and its node\<close>

text \<open>
  Claim C4. State absent, the member exists, \<^verbatim>\<open>preserve_node\<close> is false, not in check mode,
  and the removal of the member succeeds. Then the outcome follows the answer to the node
  deletion: success gives changed = True, deleted = True; an operation failure whose
  message says the node is referenced by a member of a pool gives changed = True,
  deleted = False, and the run does not fail; any other failure ends the run in
  \<^verbatim>\<open>fail_json\<close>.
\<close>

theorem absent_node_deletion_outcomes:
  assumes "checks e p = None"
    and "p_pool p = Some pool_name" and "p_host p = Some host" and "p_port p = Some port"
    and "p_state p = ''absent''" and "\<not> p_preserve_node p" and "\<not> p_check_mode p"
    and "pool = fqdn_name e (p_partition p) pool_name"
    and "address = fqdn_name e (p_partition p) host"
    and "api d (BigipApi (p_server p) (p_user p) (p_password p) (p_validate_certs p)
                  (p_server_port p)) = (Inr va, da)"
    and "api da (Get_object_status pool) = (Inr vb, db)"
    and "api db (Get_member_object_status pool address port) = (Inr vc, dc)"
    and "api dc (Remove_member_v2 pool address port) = (Inr vd, dd)"
    and "api dd (Delete_node_address address) = (r, de)"
  shows "main e api p d =
     (case r of
        Inr _ \<Rightarrow> Exit_json \<lparr>changed = True, deleted = Some True\<rparr>
      | Inl (OperationFailed msg) \<Rightarrow>
          if str_in ''is referenced by a member of pool'' msg
          then Exit_json \<lparr>changed = True, deleted = Some False\<rparr>
          else Fail_json (''received exception: '' @ msg)
      | Inl (OtherException msg) \<Rightarrow> Fail_json (''received exception: '' @ msg),
      [BigipApi (p_server p) (p_user p) (p_password p) (p_validate_certs p) (p_server_port p),
       Get_object_status pool, Get_member_object_status pool address port,
       Remove_member_v2 pool address port, Delete_node_address address],
      de)"
  using assms
  by (simp add: main_checked main_try_pool_ok main_absent_def bind_act_def member_exists_def
        remove_pool_member_def delete_node_address_def do_call_def invoke_def ret_def
      split: sum.splits exn.splits)


theorem absent_node_deletion_outcomes_witness:
  "main env0 (store_api cfg0) (params0\<lparr>p_state := ''absent''\<rparr>) dev_member =
     (Exit_json \<lparr>changed = True, deleted = Some True\<rparr>,
      [BigipApi ''lb.mydomain.com'' ''admin'' ''secret'' True 443,
       Get_object_status ''/Common/web'',
       Get_member_object_status ''/Common/web'' ''/Common/10.0.0.5'' 80,
       Remove_member_v2 ''/Common/web'' ''/Common/10.0.0.5'' 80,
       Delete_node_address ''/Common/10.0.0.5''],
      \<lparr>dev_pools = [''/Common/web''], dev_nodes = [], dev_members = []\<rparr>) \<and>
   main env0 (store_api cfg0) (params0\<lparr>p_state := ''absent''\<rparr>) dev_shared =
     (Exit_json \<lparr>changed = True, deleted = Some False\<rparr>,
      [BigipApi ''lb.mydomain.com'' ''admin'' ''secret'' True 443,
       Get_object_status ''/Common/web'',
       Get_member_object_status ''/Common/web'' ''/Common/10.0.0.5'' 80,
       Remove_member_v2 ''/Common/web'' ''/Common/10.0.0.5'' 80,
       Delete_node_address ''/Common/10.0.0.5''],
      \<lparr>dev_pools = [''/Common/web'', ''/Common/api''], dev_nodes = [''/Common/10.0.0.5''],
         dev_members = [((''/Common/api'', ''/Common/10.0.0.5'', 8080), member0)]\<rparr>) \<and>
   main env0 (store_api cfg0) (params0\<lparr>p_state := ''absent''\<rparr>) (dev_member\<lparr>dev_nodes := []\<rparr>) =
     (Fail_json ''received exception: 01020036:3: The requested node was not found.'',
      [BigipApi ''lb.mydomain.com'' ''admin'' ''secret'' True 443,
       Get_object_status ''/Common/web'',
       Get_member_object_status ''/Common/web'' ''/Common/10.0.0.5'' 80,
       Remove_member_v2 ''/Common/web'' ''/Common/10.0.0.5'' 80,
       Delete_node_address ''/Common/10.0.0.5''],
      \<lparr>dev_pools = [''/Common/web''], dev_nodes = [], dev_members = []\<rparr>)"
proof -
  let ?p = "params0\<lparr>p_state := ''absent''\<rparr>"
  let ?api = "store_api cfg0"
  let ?pool = "''/Common/web''"
  let ?address = "''/Common/10.0.0.5''"
  have h0: "checks env0 ?p = None"
    by (simp add: checks_state checks_params0)
  have h1: "p_pool ?p = Some ''web''" and h2: "p_host ?p = Some ''10.0.0.5''"
    and h3: "p_port ?p = Some 80" and h4: "p_state ?p = ''absent''"
    and h5: "\<not> p_preserve_node ?p" and h6: "\<not> p_check_mode ?p"
    and h7: "?pool = fqdn_name env0 (p_partition ?p) ''web''"
    and h8: "?address = fqdn_name env0 (p_partition ?p) ''10.0.0.5''"
    by (simp_all add: params0_def env0_def)
  have open_session: "?api d (BigipApi (p_server ?p) (p_user ?p) (p_password ?p)
         (p_validate_certs ?p) (p_server_port ?p)) = (Inr PNone, d)" for d
    by simp
  note t = absent_node_deletion_outcomes [where api = ?api and pool = ?pool
             and address = ?address, OF h0 h1 h2 h3 h4 h5 h6 h7 h8 open_session]
  have a: "?api dev_member (Get_object_status ?pool) = (Inr PNone, dev_member)"
    "?api dev_member (Get_member_object_status ?pool ?address 80) = (Inr PNone, dev_member)"
    "?api dev_member (Remove_member_v2 ?pool ?address 80) =
       (Inr PNone, \<lparr>dev_pools = [''/Common/web''], dev_nodes = [''/Common/10.0.0.5''],
                     dev_members = []\<rparr>)"
    "?api \<lparr>dev_pools = [''/Common/web''], dev_nodes = [''/Common/10.0.0.5''], dev_members = []\<rparr>
       (Delete_node_address ?address) =
       (Inr PNone, \<lparr>dev_pools = [''/Common/web''], dev_nodes = [], dev_members = []\<rparr>)"
    by (simp_all add: dev_member_def read_member_def)
  have b: "?api dev_shared (Get_object_status ?pool) = (Inr PNone, dev_shared)"
    "?api dev_shared (Get_member_object_status ?pool ?address 80) = (Inr PNone, dev_shared)"
    "?api dev_shared (Remove_member_v2 ?pool ?address 80) =
       (Inr PNone, \<lparr>dev_pools = [''/Common/web'', ''/Common/api''],
                     dev_nodes = [''/Common/10.0.0.5''],
                     dev_members = [((''/Common/api'', ''/Common/10.0.0.5'', 8080), member0)]\<rparr>)"
    "?api \<lparr>dev_pools = [''/Common/web'', ''/Common/api''], dev_nodes = [''/Common/10.0.0.5''],
           dev_members = [((''/Common/api'', ''/Common/10.0.0.5'', 8080), member0)]\<rparr>
       (Delete_node_address ?address) =
       (Inl (OperationFailed
          ''01070110:3: Node address /Common/10.0.0.5 is referenced by a member of pool.''),
        \<lparr>dev_pools = [''/Common/web'', ''/Common/api''], dev_nodes = [''/Common/10.0.0.5''],
           dev_members = [((''/Common/api'', ''/Common/10.0.0.5'', 8080), member0)]\<rparr>)"
    by (simp_all add: dev_shared_def read_member_def node_referenced_def)
  have c: "?api (dev_member\<lparr>dev_nodes := []\<rparr>) (Get_object_status ?pool) =
       (Inr PNone, dev_member\<lparr>dev_nodes := []\<rparr>)"
    "?api (dev_member\<lparr>dev_nodes := []\<rparr>) (Get_member_object_status ?pool ?address 80) =
       (Inr PNone, dev_member\<lparr>dev_nodes := []\<rparr>)"
    "?api (dev_member\<lparr>dev_nodes := []\<rparr>) (Remove_member_v2 ?pool ?address 80) =
       (Inr PNone, \<lparr>dev_pools = [''/Common/web''], dev_nodes = [], dev_members = []\<rparr>)"
    "?api \<lparr>dev_pools = [''/Common/web''], dev_nodes = [], dev_members = []\<rparr>
       (Delete_node_address ?address) =
       (Inl (OperationFailed ''01020036:3: The requested node was not found.''),
        \<lparr>dev_pools = [''/Common/web''], dev_nodes = [], dev_members = []\<rparr>)"
    by (simp_all add: dev_member_def read_member_def not_found_def)
  show ?thesis
    using t [OF a] t [OF b] t [OF c] by (simp add: params0_def)
qed


section \<open>Creating a member\<close>

lemma device_after_append:
  "device_after api (cs @ cs') d = device_after api cs' (device_after api cs d)"
  by (simp add: device_after_def)

lemma all_succeed_append:
  "all_succeed api (cs @ cs') d =
     (all_succeed api cs d \<and> all_succeed api cs' (device_after api cs d))"
proof (induction cs arbitrary: d)
  case Nil
  show ?case by (simp add: device_after_def)
next
  case (Cons c cs)
  show ?case
  proof (cases "api d c")
    case (Pair r d')
    then show ?thesis
      using Cons.IH [of d'] by (cases r) (simp_all add: device_after_def)
  qed
qed

lemma issues_ret: "issues api (ret ()) []"
  by (simp add: issues_def ret_def device_after_def)

lemma issues_bind:
  assumes "issues api m cs" and "issues api k cs'"
  shows "issues api (bind_act m (\<lambda>_. k)) (cs @ cs')"
  using assms
  by (simp add: issues_def all_succeed_append device_after_append bind_act_def)

lemma issues_call: "issues api (bind_act (do_call api c) (\<lambda>_. ret ())) [c]"
  by (auto simp: issues_def bind_act_def do_call_def invoke_def ret_def device_after_def
      split: prod.splits sum.splits)

lemma issues_if_supplied:
  assumes "\<And>x. issues api (f x) [c x]"
  shows "issues api (if_supplied v f) (supplied v c)"
  using assms by (cases v) (simp_all add: if_supplied_def supplied_def issues_ret)

lemma issues_main_create:
  "issues api (main_create api p pool address port) (create_calls p pool address port)"
  unfolding main_create_def create_calls_def
  by (intro issues_bind issues_if_supplied)
     (simp_all add: add_pool_member_def set_connection_limit_def set_description_def
        set_rate_limit_def set_ratio_def set_member_session_enabled_state_def
        set_member_monitor_state_def set_priority_group_def issues_call)

text \<open>
  Claim C5. State present, the member probe reports the member absent, not in check mode,
  and no call of the creation path fails. Then the run issues, after the opening of the
  session and the two probes, the creation of the member once and then one setter for
  each supplied attribute and none for the others, in the fixed order; no attribute is
  read; the result is changed = True.
\<close>

theorem create_issues_supplied_setters_in_order:
  assumes "checks e p = None"
    and "p_pool p = Some pool_name" and "p_host p = Some host" and "p_port p = Some port"
    and "p_state p = ''present''" and "\<not> p_check_mode p"
    and "pool = fqdn_name e (p_partition p) pool_name"
    and "address = fqdn_name e (p_partition p) host"
    and "api d (BigipApi (p_server p) (p_user p) (p_password p) (p_validate_certs p)
                  (p_server_port p)) = (Inr va, da)"
    and "api da (Get_object_status pool) = (Inr vb, db)"
    and "api db (Get_member_object_status pool address port) = (Inl (OperationFailed msg), dc)"
    and "str_in ''was not found'' msg"
    and "all_succeed api (create_calls p pool address port) dc"
  shows "main e api p d =
     (Exit_json \<lparr>changed = True, deleted = None\<rparr>,
      [BigipApi (p_server p) (p_user p) (p_password p) (p_validate_certs p) (p_server_port p),
       Get_object_status pool, Get_member_object_status pool address port] @
      create_calls p pool address port,
      device_after api (create_calls p pool address port) dc)"
proof -
  let ?log = "[BigipApi (p_server p) (p_user p) (p_password p) (p_validate_certs p)
                 (p_server_port p),
               Get_object_status pool, Get_member_object_status pool address port]"
  have "main_create api p pool address port (?log, dc) =
          (Inr (), (?log @ create_calls p pool address port,
                    device_after api (create_calls p pool address port) dc))"
    using issues_main_create [of api p pool address port] assms(13)
    unfolding issues_def by blast
  then show ?thesis
    using assms(1-12)
    by (simp add: main_checked main_try_pool_ok main_present_def bind_act_def member_exists_def
          invoke_def ret_def when_act_def)
qed


theorem create_issues_supplied_setters_in_order_witness:
  "main env0 (store_api cfg0)
     (params0\<lparr>p_connection_limit := Some 10, p_description := Some ''web server'',
              p_session_state := Some ''disabled'', p_priority_group := Some 2\<rparr>) dev_pool =
     (Exit_json \<lparr>changed = True, deleted = None\<rparr>,
      [BigipApi ''lb.mydomain.com'' ''admin'' ''secret'' True 443,
       Get_object_status ''/Common/web'',
       Get_member_object_status ''/Common/web'' ''/Common/10.0.0.5'' 80,
       Add_member_v2 ''/Common/web'' ''/Common/10.0.0.5'' 80,
       Set_member_connection_limit ''/Common/web'' ''/Common/10.0.0.5'' 80 10,
       Set_member_description ''/Common/web'' ''/Common/10.0.0.5'' 80 ''web server'',
       Set_member_session_enabled_state ''/Common/web'' ''/Common/10.0.0.5'' 80 ''STATE_DISABLED'',
       Set_member_priority ''/Common/web'' ''/Common/10.0.0.5'' 80 2],
      \<lparr>dev_pools = [''/Common/web''], dev_nodes = [''/Common/10.0.0.5''],
         dev_members =
           [((''/Common/web'', ''/Common/10.0.0.5'', 80),
             \<lparr>m_connection_limit = 10, m_description = ''web server'', m_rate_limit = 0,
                m_ratio = 1, m_priority = 2,
                m_session_status = ''SESSION_STATUS_FORCED_DISABLED'',
                m_monitor_status = ''MONITOR_STATUS_UP''\<rparr>)]\<rparr>)"
proof -
  let ?p = "params0\<lparr>p_connection_limit := Some 10, p_description := Some ''web server'',
              p_session_state := Some ''disabled'', p_priority_group := Some 2\<rparr>"
  let ?api = "store_api cfg0"
  let ?pool = "''/Common/web''"
  let ?address = "''/Common/10.0.0.5''"
  have h0: "checks env0 ?p = None"
    by (simp add: checks_def env0_def params0_def argument_spec_ok_def in_choices_def truthy_def)
  have h1: "p_pool ?p = Some ''web''" and h2: "p_host ?p = Some ''10.0.0.5''"
    and h3: "p_port ?p = Some 80" and h4: "p_state ?p = ''present''"
    and h5: "\<not> p_check_mode ?p"
    and h6: "?pool = fqdn_name env0 (p_partition ?p) ''web''"
    and h7: "?address = fqdn_name env0 (p_partition ?p) ''10.0.0.5''"
    by (simp_all add: params0_def env0_def)
  have h8: "?api dev_pool (BigipApi (p_server ?p) (p_user ?p) (p_password ?p)
         (p_validate_certs ?p) (p_server_port ?p)) = (Inr PNone, dev_pool)"
    by simp
  have h9: "?api dev_pool (Get_object_status ?pool) = (Inr PNone, dev_pool)"
    by (simp add: dev_pool_def)
  have h10: "?api dev_pool (Get_member_object_status ?pool ?address 80) =
      (Inl (OperationFailed ''01020036:3: The requested pool member was not found.''), dev_pool)"
    by (simp add: dev_pool_def read_member_def not_found_def)
  have h11: "str_in ''was not found'' ''01020036:3: The requested pool member was not found.''"
    by simp
  have calls: "create_calls ?p ?pool ?address 80 =
      [Add_member_v2 ''/Common/web'' ''/Common/10.0.0.5'' 80,
       Set_member_connection_limit ''/Common/web'' ''/Common/10.0.0.5'' 80 10,
       Set_member_description ''/Common/web'' ''/Common/10.0.0.5'' 80 ''web server'',
       Set_member_session_enabled_state ''/Common/web'' ''/Common/10.0.0.5'' 80 ''STATE_DISABLED'',
       Set_member_priority ''/Common/web'' ''/Common/10.0.0.5'' 80 2]"
    by (simp add: create_calls_def supplied_def params0_def upper_def upper_char_def strip_def
          is_space_def)
  have h12: "all_succeed ?api (create_calls ?p ?pool ?address 80) dev_pool"
    unfolding calls by (simp add: dev_pool_def write_member_def cfg0_def)
  show ?thesis
    using create_issues_supplied_setters_in_order [where api = ?api and pool = ?pool
            and address = ?address and d = dev_pool and da = dev_pool and db = dev_pool
            and dc = dev_pool, OF h0 h1 h2 h3 h4 h5 h6 h7 h8 h9 h10 h11 h12]
    unfolding calls
    by (simp add: params0_def device_after_def dev_pool_def write_member_def cfg0_def)
qed


section \<open>The key deleted in the result\<close>

lemma no_deletedD: "no_deleted m \<Longrightarrow> m s = (Inr res, s') \<Longrightarrow> deleted res = None"
  unfolding no_deleted_def by blast

lemma no_deleted_ret: "deleted res = None \<Longrightarrow> no_deleted (ret res)"
  by (simp add: no_deleted_def ret_def)

lemma no_deleted_bind:
  assumes "\<And>x. no_deleted (f x)"
  shows "no_deleted (bind_act m f)"
  using assms
  by (auto simp: no_deleted_def bind_act_def split: prod.splits sum.splits)

lemma no_deleted_bind_res:
  assumes "no_deleted m" and "\<And>res. deleted res = None \<Longrightarrow> no_deleted (f res)"
  shows "no_deleted (bind_act m f)"
  unfolding no_deleted_def
proof (intro allI impI)
  fix s res s'
  assume run: "bind_act m f s = (Inr res, s')"
  then obtain r t where m: "m s = (Inr r, t)" and f: "f r t = (Inr res, s')"
    by (auto simp: bind_act_def split: prod.splits sum.splits)
  from no_deletedD [OF assms(1) m] have "deleted r = None" .
  from no_deletedD [OF assms(2) [OF this] f] show "deleted res = None" .
qed

lemma no_deleted_update_connection_limit:
  "deleted res = None \<Longrightarrow> no_deleted (update_connection_limit api p pool address port res)"
  unfolding update_connection_limit_def
  by (auto split: option.splits intro!: no_deleted_bind no_deleted_ret)

lemma no_deleted_update_description:
  "deleted res = None \<Longrightarrow> no_deleted (update_description api p pool address port res)"
  unfolding update_description_def
  by (auto split: option.splits intro!: no_deleted_bind no_deleted_ret)

lemma no_deleted_update_rate_limit:
  "deleted res = None \<Longrightarrow> no_deleted (update_rate_limit api p pool address port res)"
  unfolding update_rate_limit_def
  by (auto split: option.splits intro!: no_deleted_bind no_deleted_ret)

lemma no_deleted_update_ratio:
  "deleted res = None \<Longrightarrow> no_deleted (update_ratio api p pool address port res)"
  unfolding update_ratio_def
  by (auto split: option.splits intro!: no_deleted_bind no_deleted_ret)

lemma no_deleted_update_session_state:
  "deleted res = None \<Longrightarrow> no_deleted (update_session_state api p pool address port res)"
  unfolding update_session_state_def
  by (auto split: option.splits intro!: no_deleted_bind no_deleted_ret)

lemma no_deleted_update_monitor_state:
  "deleted res = None \<Longrightarrow> no_deleted (update_monitor_state api p pool address port res)"
  unfolding update_monitor_state_def
  by (auto split: option.splits intro!: no_deleted_bind no_deleted_ret)

lemma no_deleted_update_priority_group:
  "deleted res = None \<Longrightarrow> no_deleted (update_priority_group api p pool address port res)"
  unfolding update_priority_group_def
  by (auto split: option.splits intro!: no_deleted_bind no_deleted_ret)

lemmas no_deleted_update = no_deleted_update_connection_limit no_deleted_update_description
  no_deleted_update_rate_limit no_deleted_update_ratio no_deleted_update_session_state
  no_deleted_update_monitor_state no_deleted_update_priority_group

lemma no_deleted_main_update:
  "deleted res = None \<Longrightarrow> no_deleted (main_update api p pool address port res)"
  unfolding main_update_def
  by (intro no_deleted_bind_res no_deleted_update) 

lemma no_deleted_main_present: "no_deleted (main_present api p pool address port)"
  unfolding main_present_def
  by (auto intro!: no_deleted_bind no_deleted_ret no_deleted_main_update)

lemma checks_not_exit: "checks e p = Some out \<Longrightarrow> out \<noteq> Exit_json res"
  by (auto simp: checks_def split: if_splits option.splits)

lemma finish_Exit: "finish x = (Exit_json res, s) \<Longrightarrow> x = (Inr res, s)"
  by (cases x rule: finish.cases) auto

lemma main_Exit:
  assumes "main e api p d = (Exit_json res, log, d')"
  shows "\<exists>pool_name host port. checks e p = None \<and> p_pool p = Some pool_name \<and>
           p_host p = Some host \<and> p_port p = Some port \<and>
           main_try api p (fqdn_name e (p_partition p) pool_name)
             (fqdn_name e (p_partition p) host) port ([], d) = (Inr res, (log, d'))"
proof -
  have c: "checks e p = None"
    using assms checks_not_exit [of e p _ res]
    by (cases "checks e p") (auto simp: main_def)
  then obtain pool_name host port where
    ps: "p_pool p = Some pool_name" "p_host p = Some host" "p_port p = Some port"
    using assms by (auto simp: main_def split: option.splits)
  with c assms have "finish (main_try api p (fqdn_name e (p_partition p) pool_name)
             (fqdn_name e (p_partition p) host) port ([], d)) = (Exit_json res, log, d')"
    by (simp add: main_checked)
  from finish_Exit [OF this] c ps show ?thesis by blast
qed

text \<open>
  Claim C10. A result carries the key \<^verbatim>\<open>deleted\<close> only when the state is absent, the
  member probe succeeded (the member existed), \<^verbatim>\<open>preserve_node\<close> is false and the run is
  not in check mode. So a result in check mode never has the key.
\<close>

theorem deleted_only_after_real_removal:
  assumes "main e api p d = (Exit_json res, log, d')" and "deleted res \<noteq> None"
  shows "p_state p = ''absent'' \<and> \<not> p_preserve_node p \<and> \<not> p_check_mode p \<and>
    (\<exists>pool_name host port va da vb db vc dc.
       p_pool p = Some pool_name \<and> p_host p = Some host \<and> p_port p = Some port \<and>
       api d (BigipApi (p_server p) (p_user p) (p_password p) (p_validate_certs p)
                (p_server_port p)) = (Inr va, da) \<and>
       api da (Get_object_status (fqdn_name e (p_partition p) pool_name)) = (Inr vb, db) \<and>
       api db (Get_member_object_status (fqdn_name e (p_partition p) pool_name)
                 (fqdn_name e (p_partition p) host) port) = (Inr vc, dc))"
proof -
  from main_Exit [OF assms(1)] obtain pool_name host port where
    ps: "p_pool p = Some pool_name" "p_host p = Some host" "p_port p = Some port"
    and run: "main_try api p (fqdn_name e (p_partition p) pool_name)
             (fqdn_name e (p_partition p) host) port ([], d) = (Inr res, (log, d'))"
    by blast
  let ?pool = "fqdn_name e (p_partition p) pool_name"
  let ?address = "fqdn_name e (p_partition p) host"
  let ?open = "BigipApi (p_server p) (p_user p) (p_password p) (p_validate_certs p)
                 (p_server_port p)"
  from run obtain va da where a: "api d ?open = (Inr va, da)"
    by (cases "api d ?open")
       (auto simp: main_try_def bind_act_def do_call_def invoke_def split: sum.splits)
  from run a obtain vb db where b: "api da (Get_object_status ?pool) = (Inr vb, db)"
    by (cases "api da (Get_object_status ?pool)")
       (auto simp: main_try_def bind_act_def do_call_def invoke_def pool_exists_def fail_json_def
             split: sum.splits exn.splits if_splits)
  let ?s = "([?open, Get_object_status ?pool], db)"
  from run have branch:
    "(if p_state p = ''absent'' then main_absent api p ?pool ?address port
      else if p_state p = ''present'' then main_present api p ?pool ?address port
      else ret \<lparr>changed = False, deleted = None\<rparr>) ?s = (Inr res, (log, d'))"
    by (simp add: main_try_pool_ok [OF a b])
  have absent: "p_state p = ''absent''"
  proof (rule ccontr)
    assume "p_state p \<noteq> ''absent''"
    with branch have "deleted res = None"
      using no_deletedD [OF no_deleted_main_present, of api p ?pool ?address port ?s res "(log, d')"]
      by (auto simp: ret_def split: if_splits)
    with assms(2) show False by simp
  qed
  with branch have ab: "main_absent api p ?pool ?address port ?s = (Inr res, (log, d'))"
    by simp
  from ab assms(2) obtain vc dc where
    c: "api db (Get_member_object_status ?pool ?address port) = (Inr vc, dc)"
    by (cases "api db (Get_member_object_status ?pool ?address port)")
       (auto simp: main_absent_def bind_act_def member_exists_def invoke_def ret_def
             split: sum.splits exn.splits if_splits)
  from ab assms(2) c have "\<not> p_preserve_node p \<and> \<not> p_check_mode p"
    by (auto simp: main_absent_def bind_act_def member_exists_def invoke_def ret_def
             split: sum.splits exn.splits if_splits prod.splits)
  with absent ps a b c show ?thesis by blast
qed


theorem deleted_only_after_real_removal_witness:
  "main env0 (store_api cfg0) (params0\<lparr>p_state := ''absent''\<rparr>) dev_shared =
     (Exit_json \<lparr>changed = True, deleted = Some False\<rparr>,
      [BigipApi ''lb.mydomain.com'' ''admin'' ''secret'' True 443,
       Get_object_status ''/Common/web'',
       Get_member_object_status ''/Common/web'' ''/Common/10.0.0.5'' 80,
       Remove_member_v2 ''/Common/web'' ''/Common/10.0.0.5'' 80,
       Delete_node_address ''/Common/10.0.0.5''],
      \<lparr>dev_pools = [''/Common/web'', ''/Common/api''], dev_nodes = [''/Common/10.0.0.5''],
         dev_members = [((''/Common/api'', ''/Common/10.0.0.5'', 8080), member0)]\<rparr>) \<and>
   deleted \<lparr>changed = True, deleted = Some False\<rparr> \<noteq> None \<and>
   p_state (params0\<lparr>p_state := ''absent''\<rparr>) = ''absent'' \<and>
   \<not> p_preserve_node (params0\<lparr>p_state := ''absent''\<rparr>) \<and>
   \<not> p_check_mode (params0\<lparr>p_state := ''absent''\<rparr>)"
proof -
  have run: "main env0 (store_api cfg0) (params0\<lparr>p_state := ''absent''\<rparr>) dev_shared =
     (Exit_json \<lparr>changed = True, deleted = Some False\<rparr>,
      [BigipApi ''lb.mydomain.com'' ''admin'' ''secret'' True 443,
       Get_object_status ''/Common/web'',
       Get_member_object_status ''/Common/web'' ''/Common/10.0.0.5'' 80,
       Remove_member_v2 ''/Common/web'' ''/Common/10.0.0.5'' 80,
       Delete_node_address ''/Common/10.0.0.5''],
      \<lparr>dev_pools = [''/Common/web'', ''/Common/api''], dev_nodes = [''/Common/10.0.0.5''],
         dev_members = [((''/Common/api'', ''/Common/10.0.0.5'', 8080), member0)]\<rparr>)"
    by code_simp
  have key: "deleted \<lparr>changed = True, deleted = Some False\<rparr> \<noteq> None"
    by simp
  from deleted_only_after_real_removal [OF run key] run key show ?thesis
    by blast
qed


section \<open>Session state and monitor state of an existing member\<close>

text \<open>
  Claim C1, as the code has it. Lines 503 to 512 (and 513 to 522 for the monitor state)
  run when the state is present, the member exists and the intent is supplied. Once the
  status has been read: the setter is issued exactly when the status violates the intent
  and the run is not in check mode, and nothing else is issued; when the status does not
  violate the intent the result is left as it was; when it does, the result becomes
  changed = True, in check mode too, unless the setter raises.
\<close>

theorem state_written_iff_violated_and_not_check_mode:
  "(p_session_state p = Some intent \<and>
    get_member_session_status api pool address port s = (Inr status, sa) \<and>
    update_session_state api p pool address port res s = (r, sb) \<longrightarrow>
      (if violated ''forced_disabled'' intent status \<and> \<not> p_check_mode p
       then fst sb = fst sa @ [Set_member_session_enabled_state pool address port
                                 (''STATE_'' @ upper (strip intent))]
       else sb = sa) \<and>
      (if violated ''forced_disabled'' intent status
       then r = Inr \<lparr>changed = True, deleted = None\<rparr> \<or>
            (\<not> p_check_mode p \<and> (\<exists>x. r = Inl (Raised x)))
       else r = Inr res)) \<and>
   (p_monitor_state p = Some intent \<and>
    get_member_monitor_status api pool address port s = (Inr status, sa) \<and>
    update_monitor_state api p pool address port res s = (r, sb) \<longrightarrow>
      (if violated ''forced_down'' intent status \<and> \<not> p_check_mode p
       then fst sb = fst sa @ [Set_member_monitor_state pool address port
                                 (''STATE_'' @ upper (strip intent))]
       else sb = sa) \<and>
      (if violated ''forced_down'' intent status
       then r = Inr \<lparr>changed = True, deleted = None\<rparr> \<or>
            (\<not> p_check_mode p \<and> (\<exists>x. r = Inl (Raised x)))
       else r = Inr res))"
proof (intro conjI impI)
  assume h: "p_session_state p = Some intent \<and>
    get_member_session_status api pool address port s = (Inr status, sa) \<and>
    update_session_state api p pool address port res s = (r, sb)"
  then have run: "(if violated ''forced_disabled'' intent status
           then bind_act (when_act (\<not> p_check_mode p)
                  (set_member_session_enabled_state api pool address port intent))
                  (\<lambda>_. ret \<lparr>changed = True, deleted = None\<rparr>)
           else ret res) sa = (r, sb)"
    by (auto simp: update_session_state_def violated_def bind_act_Inr)
  show "if violated ''forced_disabled'' intent status \<and> \<not> p_check_mode p
       then fst sb = fst sa @ [Set_member_session_enabled_state pool address port
                                 (''STATE_'' @ upper (strip intent))]
       else sb = sa"
    using run
    by (auto simp: bind_act_def when_act_def ret_def set_member_session_enabled_state_def
          do_call_def invoke_def split: if_splits prod.splits sum.splits)
  show "if violated ''forced_disabled'' intent status
       then r = Inr \<lparr>changed = True, deleted = None\<rparr> \<or>
            (\<not> p_check_mode p \<and> (\<exists>x. r = Inl (Raised x)))
       else r = Inr res"
    using run
    by (auto simp: bind_act_def when_act_def ret_def set_member_session_enabled_state_def
          do_call_def invoke_def split: if_splits prod.splits sum.splits)
next
  assume h: "p_monitor_state p = Some intent \<and>
    get_member_monitor_status api pool address port s = (Inr status, sa) \<and>
    update_monitor_state api p pool address port res s = (r, sb)"
  then have run: "(if violated ''forced_down'' intent status
           then bind_act (when_act (\<not> p_check_mode p)
                  (set_member_monitor_state api pool address port intent))
                  (\<lambda>_. ret \<lparr>changed = True, deleted = None\<rparr>)
           else ret res) sa = (r, sb)"
    by (auto simp: update_monitor_state_def violated_def bind_act_Inr)
  show "if violated ''forced_down'' intent status \<and> \<not> p_check_mode p
       then fst sb = fst sa @ [Set_member_monitor_state pool address port
                                 (''STATE_'' @ upper (strip intent))]
       else sb = sa"
    using run
    by (auto simp: bind_act_def when_act_def ret_def set_member_monitor_state_def
          do_call_def invoke_def split: if_splits prod.splits sum.splits)
  show "if violated ''forced_down'' intent status
       then r = Inr \<lparr>changed = True, deleted = None\<rparr> \<or>
            (\<not> p_check_mode p \<and> (\<exists>x. r = Inl (Raised x)))
       else r = Inr res"
    using run
    by (auto simp: bind_act_def when_act_def ret_def set_member_monitor_state_def
          do_call_def invoke_def split: if_splits prod.splits sum.splits)
qed


theorem state_written_iff_violated_and_not_check_mode_witness:
  "get_member_session_status (store_api cfg0) ''/Common/web'' ''/Common/10.0.0.5'' 80
     ([], dev_member) =
     (Inr ''forced_disabled'',
      ([Get_member_session_status ''/Common/web'' ''/Common/10.0.0.5'' 80], dev_member)) \<and>
   violated ''forced_disabled'' ''enabled'' ''forced_disabled'' \<and>
   fst (snd (update_session_state (store_api cfg0) (params0\<lparr>p_session_state := Some ''enabled''\<rparr>)
               ''/Common/web'' ''/Common/10.0.0.5'' 80 \<lparr>changed = False, deleted = None\<rparr>
               ([], dev_member))) =
     [Get_member_session_status ''/Common/web'' ''/Common/10.0.0.5'' 80,
      Set_member_session_enabled_state ''/Common/web'' ''/Common/10.0.0.5'' 80 ''STATE_ENABLED''] \<and>
   get_member_monitor_status (store_api cfg0) ''/Common/web'' ''/Common/10.0.0.5'' 80
     ([], dev_member) =
     (Inr ''down'',
      ([Get_member_monitor_status ''/Common/web'' ''/Common/10.0.0.5'' 80], dev_member)) \<and>
   \<not> violated ''forced_down'' ''enabled'' ''down'' \<and>
   update_monitor_state (store_api cfg0) (params0\<lparr>p_monitor_state := Some ''enabled''\<rparr>)
     ''/Common/web'' ''/Common/10.0.0.5'' 80 \<lparr>changed = False, deleted = None\<rparr> ([], dev_member) =
     (Inr \<lparr>changed = False, deleted = None\<rparr>,
      ([Get_member_monitor_status ''/Common/web'' ''/Common/10.0.0.5'' 80], dev_member))"
proof -
  let ?api = "store_api cfg0"
  let ?ps = "params0\<lparr>p_session_state := Some ''enabled''\<rparr>"
  let ?pm = "params0\<lparr>p_monitor_state := Some ''enabled''\<rparr>"
  let ?res = "\<lparr>changed = False, deleted = None\<rparr>"
  let ?sa = "([Get_member_session_status ''/Common/web'' ''/Common/10.0.0.5'' 80], dev_member)"
  let ?ma = "([Get_member_monitor_status ''/Common/web'' ''/Common/10.0.0.5'' 80], dev_member)"
  have s1: "p_session_state ?ps = Some ''enabled''" and m1: "p_monitor_state ?pm = Some ''enabled''"
    by simp_all
  have s2: "get_member_session_status ?api ''/Common/web'' ''/Common/10.0.0.5'' 80 ([], dev_member)
              = (Inr ''forced_disabled'', ?sa)"
    by code_simp
  have m2: "get_member_monitor_status ?api ''/Common/web'' ''/Common/10.0.0.5'' 80 ([], dev_member)
              = (Inr ''down'', ?ma)"
    by code_simp
  have s3: "violated ''forced_disabled'' ''enabled'' ''forced_disabled''"
    and m3: "\<not> violated ''forced_down'' ''enabled'' ''down''"
    by (simp_all add: violated_def)
  have s4: "\<not> p_check_mode ?ps"
    by (simp add: params0_def)
  obtain r sb where s5: "update_session_state ?api ?ps ''/Common/web'' ''/Common/10.0.0.5'' 80
      ?res ([], dev_member) = (r, sb)"
    by (cases "update_session_state ?api ?ps ''/Common/web'' ''/Common/10.0.0.5'' 80
      ?res ([], dev_member)") blast
  obtain r' sb' where m5: "update_monitor_state ?api ?pm ''/Common/web'' ''/Common/10.0.0.5'' 80
      ?res ([], dev_member) = (r', sb')"
    by (cases "update_monitor_state ?api ?pm ''/Common/web'' ''/Common/10.0.0.5'' 80
      ?res ([], dev_member)") blast
  have "fst sb = fst ?sa @ [Set_member_session_enabled_state ''/Common/web'' ''/Common/10.0.0.5'' 80
                              (''STATE_'' @ upper (strip ''enabled''))]"
    using state_written_iff_violated_and_not_check_mode [where p = ?ps and api = ?api
            and intent = "''enabled''" and status = "''forced_disabled''" and s = "([], dev_member)"
            and sa = ?sa and pool = "''/Common/web''" and address = "''/Common/10.0.0.5''"
            and port = 80 and res = ?res and r = r and sb = sb]
          s1 s2 s3 s4 s5
    by simp
  moreover have "r' = Inr ?res \<and> sb' = ?ma"
    using state_written_iff_violated_and_not_check_mode [where p = ?pm and api = ?api
            and intent = "''enabled''" and status = "''down''" and s = "([], dev_member)"
            and sa = ?ma and pool = "''/Common/web''" and address = "''/Common/10.0.0.5''"
            and port = 80 and res = ?res and r = r' and sb = sb']
          m1 m2 m3 m5
    by simp
  ultimately show ?thesis
    using s2 s3 m2 m3 s5 m5
    by (simp add: upper_def upper_char_def strip_def is_space_def)
qed

text \<open>
  The claim as stated fails in check mode: the member exists, the intent is enabled and the
  status read is forced_disabled, yet no setter is issued, while changed is True.
\<close>

theorem state_written_check_mode_counterexample:
  "get_member_session_status (store_api cfg0) ''/Common/web'' ''/Common/10.0.0.5'' 80
     ([BigipApi ''lb.mydomain.com'' ''admin'' ''secret'' True 443,
       Get_object_status ''/Common/web'',
       Get_member_object_status ''/Common/web'' ''/Common/10.0.0.5'' 80], dev_member) =
     (Inr ''forced_disabled'',
      ([BigipApi ''lb.mydomain.com'' ''admin'' ''secret'' True 443,
        Get_object_status ''/Common/web'',
        Get_member_object_status ''/Common/web'' ''/Common/10.0.0.5'' 80,
        Get_member_session_status ''/Common/web'' ''/Common/10.0.0.5'' 80], dev_member)) \<and>
   main env0 (store_api cfg0)
     (params0\<lparr>p_session_state := Some ''enabled'', p_check_mode := True\<rparr>) dev_member =
     (Exit_json \<lparr>changed = True, deleted = None\<rparr>,
      [BigipApi ''lb.mydomain.com'' ''admin'' ''secret'' True 443,
       Get_object_status ''/Common/web'',
       Get_member_object_status ''/Common/web'' ''/Common/10.0.0.5'' 80,
       Get_member_session_status ''/Common/web'' ''/Common/10.0.0.5'' 80],
      dev_member)"
  by code_simp


section \<open>Check mode\<close>

subsection \<open>No write is issued\<close>

lemma reads_only_ret: "reads_only (ret x)"
  by (simp add: reads_only_def ret_def)

lemma reads_only_fail_json: "reads_only (fail_json msg)"
  by (simp add: reads_only_def fail_json_def)

lemma reads_only_raise_exn: "reads_only (raise_exn x)"
  by (simp add: reads_only_def raise_exn_def)

lemma reads_only_bind:
  assumes "reads_only m" and "\<And>x. reads_only (f x)"
  shows "reads_only (bind_act m f)"
  unfolding reads_only_def
proof (intro allI impI)
  fix s r s'
  assume run: "bind_act m f s = (r, s')" and clean: "\<forall>c \<in> set (fst s). \<not> is_write c"
  obtain a t where m: "m s = (a, t)" by (cases "m s")
  with assms(1) clean have t: "\<forall>c \<in> set (fst t). \<not> is_write c"
    unfolding reads_only_def by blast
  show "\<forall>c \<in> set (fst s'). \<not> is_write c"
  proof (cases a)
    case (Inl x)
    with run m t show ?thesis by (simp add: bind_act_def)
  next
    case (Inr x)
    with run m have "f x t = (r, s')" by (simp add: bind_act_def)
    with assms(2) [of x] t show ?thesis
      unfolding reads_only_def by blast
  qed
qed

lemma reads_only_do_call: "\<not> is_write c \<Longrightarrow> reads_only (do_call api c)"
  unfolding reads_only_def do_call_def invoke_def
  by (auto split: prod.splits sum.splits)

lemma reads_only_pool_exists: "reads_only (pool_exists api pool)"
  unfolding reads_only_def pool_exists_def invoke_def
  by (auto split: prod.splits sum.splits exn.splits if_splits)

lemma reads_only_member_exists: "reads_only (member_exists api pool address port)"
  unfolding reads_only_def member_exists_def invoke_def
  by (auto split: prod.splits sum.splits exn.splits if_splits)

lemma reads_only_when_False: "reads_only (when_act False m)"
  by (simp add: when_act_def reads_only_ret)

lemma reads_only_status:
  "reads_only (get_member_session_status api pool address port)"
  "reads_only (get_member_monitor_status api pool address port)"
  unfolding get_member_session_status_def get_member_monitor_status_def
  by (auto intro!: reads_only_bind reads_only_do_call reads_only_ret reads_only_raise_exn
      split: pyval.splits)

lemmas reads_only_intros = reads_only_bind reads_only_ret reads_only_fail_json
  reads_only_raise_exn reads_only_do_call reads_only_pool_exists reads_only_member_exists
  reads_only_when_False reads_only_status

lemma reads_only_update:
  assumes "p_check_mode p"
  shows "reads_only (update_connection_limit api p pool address port res)"
    and "reads_only (update_description api p pool address port res)"
    and "reads_only (update_rate_limit api p pool address port res)"
    and "reads_only (update_ratio api p pool address port res)"
    and "reads_only (update_session_state api p pool address port res)"
    and "reads_only (update_monitor_state api p pool address port res)"
    and "reads_only (update_priority_group api p pool address port res)"
  using assms
  unfolding update_connection_limit_def update_description_def update_rate_limit_def
    update_ratio_def update_session_state_def update_monitor_state_def
    update_priority_group_def get_connection_limit_def get_description_def get_rate_limit_def
    get_ratio_def get_priority_group_def
  by (auto intro!: reads_only_intros split: option.splits)

lemma reads_only_main_update:
  "p_check_mode p \<Longrightarrow> reads_only (main_update api p pool address port res)"
  unfolding main_update_def
  by (intro reads_only_bind reads_only_update)

lemma reads_only_main_try:
  assumes "p_check_mode p"
  shows "reads_only (main_try api p pool address port)"
  using assms
  unfolding main_try_def main_absent_def main_present_def
  by (auto intro!: reads_only_intros reads_only_main_update)

lemma finish_log: "fst (snd (finish x)) = fst (snd x)"
  by (cases x rule: finish.cases) auto

lemma check_mode_log:
  assumes "p_check_mode p"
  shows "\<forall>c \<in> set (fst (snd (main e api p d))). \<not> is_write c"
proof (cases "checks e p")
  case (Some out)
  then show ?thesis by (simp add: main_def)
next
  case None
  show ?thesis
  proof (cases "p_pool p")
    case pn: None
    with None show ?thesis by (simp add: main_def)
  next
    case pool: (Some pool_name)
    show ?thesis
    proof (cases "p_host p")
      case hn: None
      with None pool show ?thesis by (simp add: main_def)
    next
      case host: (Some host)
      show ?thesis
      proof (cases "p_port p")
        case pn: None
        with None pool host show ?thesis by (simp add: main_def)
      next
        case (Some port)
        let ?run = "main_try api p (fqdn_name e (p_partition p) pool_name)
                      (fqdn_name e (p_partition p) host) port ([], d)"
        have "\<forall>c \<in> set (fst (snd ?run)). \<not> is_write c"
          using reads_only_main_try [OF assms, of api "fqdn_name e (p_partition p) pool_name"
                  "fqdn_name e (p_partition p) host" port]
          unfolding reads_only_def
          by (metis empty_iff fst_conv list.set(1) prod.collapse)
        with None pool host Some show ?thesis
          by (simp add: main_checked finish_log)
      qed
    qed
  qed
qed


subsection \<open>The same value of changed\<close>

lemma agree_refl: "agree x x"
  by (simp add: agree_def)

lemma flagged_changed: "changed res \<Longrightarrow> flagged (Inr res, s)"
  by (simp add: flagged_def)

lemma bind_act_cases:
  obtains a t where "m s = (Inl a, t)" and "bind_act m f s = (Inl a, t)"
  | x t where "m s = (Inr x, t)" and "bind_act m f s = f x t"
proof -
  obtain r t where rt: "m s = (r, t)" by (cases "m s")
  show ?thesis
  proof (cases r)
    case (Inl a)
    with rt that(1) show ?thesis by (simp add: bind_act_def)
  next
    case (Inr x)
    with rt that(2) show ?thesis by (simp add: bind_act_def)
  qed
qed

lemma flagged_bind:
  assumes "flagged (m s)" and "keeps_changed f"
  shows "flagged (bind_act m f s)"
proof (cases rule: bind_act_cases [of m s f])
  case (1 a t)
  then show ?thesis by (simp add: flagged_def)
next
  case (2 res t)
  with assms(1) have "changed res" by (simp add: flagged_def)
  with assms(2) have "flagged (f res t)" unfolding keeps_changed_def by blast
  with 2 show ?thesis by simp
qed

lemma flagged_bind_const:
  assumes "\<And>x t. flagged (f x t)"
  shows "flagged (bind_act m f s)"
proof (cases rule: bind_act_cases [of m s f])
  case (1 a t)
  then show ?thesis by (simp add: flagged_def)
next
  case (2 x t)
  with assms show ?thesis by simp
qed

lemma agree_bind_same:
  assumes "\<And>x t. agree (f x t) (g x t)"
  shows "agree (bind_act m f s) (bind_act m g s)"
proof -
  obtain r t where rt: "m s = (r, t)" by (cases "m s")
  with assms show ?thesis
    by (cases r) (simp_all add: bind_act_def agree_refl)
qed

lemma agree_bind:
  assumes "agree (m s) (n s)" and "agrees f g" and "keeps_changed f" and "keeps_changed g"
  shows "agree (bind_act m f s) (bind_act n g s)"
proof (cases "m s = n s")
  case True
  obtain r t where rt: "m s = (r, t)" by (cases "m s")
  with True have "n s = (r, t)" by simp
  moreover have "agree (f x t) (g x t)" for x
    using assms(2) unfolding agrees_def by blast
  ultimately show ?thesis
    using rt by (cases r) (simp_all add: bind_act_def agree_refl)
next
  case False
  with assms(1) have "flagged (m s)" "flagged (n s)"
    by (simp_all add: agree_def)
  then show ?thesis
    using assms(3,4) by (simp add: agree_def flagged_bind)
qed

lemma agree_write_or_not:
  "agree (bind_act (when_act False w) (\<lambda>_. ret \<lparr>changed = True, deleted = None\<rparr>) t)
         (bind_act (when_act True w') (\<lambda>_. ret \<lparr>changed = True, deleted = None\<rparr>) t)"
proof -
  have "flagged (bind_act (when_act True w') (\<lambda>_. ret \<lparr>changed = True, deleted = None\<rparr>) t)"
    by (rule flagged_bind_const) (simp add: ret_def flagged_def)
  moreover have "flagged (bind_act (when_act False w)
                   (\<lambda>_. ret \<lparr>changed = True, deleted = None\<rparr>) t)"
    by (rule flagged_bind_const) (simp add: ret_def flagged_def)
  ultimately show ?thesis by (simp add: agree_def)
qed

lemma keeps_changed_bind:
  assumes "keeps_changed f" and "keeps_changed g"
  shows "keeps_changed (\<lambda>r. bind_act (f r) g)"
  using assms unfolding keeps_changed_def by (blast intro: flagged_bind [unfolded keeps_changed_def])

lemma agrees_bind:
  assumes "agrees f f'" and "agrees g g'" and "keeps_changed g" and "keeps_changed g'"
  shows "agrees (\<lambda>r. bind_act (f r) g) (\<lambda>r. bind_act (f' r) g')"
  using assms unfolding agrees_def by (blast intro: agree_bind [unfolded agrees_def])

text \<open>Each statement of the update path keeps changed = True.\<close>

lemma keeps_changed_update:
  "keeps_changed (update_connection_limit api p pool address port)"
  "keeps_changed (update_description api p pool address port)"
  "keeps_changed (update_rate_limit api p pool address port)"
  "keeps_changed (update_ratio api p pool address port)"
  "keeps_changed (update_session_state api p pool address port)"
  "keeps_changed (update_monitor_state api p pool address port)"
  "keeps_changed (update_priority_group api p pool address port)"
  unfolding keeps_changed_def update_connection_limit_def update_description_def
    update_rate_limit_def update_ratio_def update_session_state_def update_monitor_state_def
    update_priority_group_def
  by (auto simp: ret_def flagged_changed intro!: flagged_bind_const split: option.splits)

text \<open>
  Each statement of the update path, run in check mode and not, from the same state and
  the same result: both runs read the same value; if it needs no change they are the same
  run, otherwise one returns changed = True and the other returns it or aborts.
\<close>

lemma agrees_update:
  "agrees (update_connection_limit api (p\<lparr>p_check_mode := True\<rparr>) pool address port)
          (update_connection_limit api (p\<lparr>p_check_mode := False\<rparr>) pool address port)"
  "agrees (update_description api (p\<lparr>p_check_mode := True\<rparr>) pool address port)
          (update_description api (p\<lparr>p_check_mode := False\<rparr>) pool address port)"
  "agrees (update_rate_limit api (p\<lparr>p_check_mode := True\<rparr>) pool address port)
          (update_rate_limit api (p\<lparr>p_check_mode := False\<rparr>) pool address port)"
  "agrees (update_ratio api (p\<lparr>p_check_mode := True\<rparr>) pool address port)
          (update_ratio api (p\<lparr>p_check_mode := False\<rparr>) pool address port)"
  "agrees (update_session_state api (p\<lparr>p_check_mode := True\<rparr>) pool address port)
          (update_session_state api (p\<lparr>p_check_mode := False\<rparr>) pool address port)"
  "agrees (update_monitor_state api (p\<lparr>p_check_mode := True\<rparr>) pool address port)
          (update_monitor_state api (p\<lparr>p_check_mode := False\<rparr>) pool address port)"
  "agrees (update_priority_group api (p\<lparr>p_check_mode := True\<rparr>) pool address port)
          (update_priority_group api (p\<lparr>p_check_mode := False\<rparr>) pool address port)"
  unfolding agrees_def update_connection_limit_def update_description_def
    update_rate_limit_def update_ratio_def update_session_state_def update_monitor_state_def
    update_priority_group_def
  by (auto simp: agree_refl intro!: agree_bind_same agree_write_or_not split: option.splits)

lemma agrees_main_update:
  "agrees (main_update api (p\<lparr>p_check_mode := True\<rparr>) pool address port)
          (main_update api (p\<lparr>p_check_mode := False\<rparr>) pool address port)"
proof -
  have eq: "main_update api q pool address port =
      (\<lambda>res0. bind_act (update_connection_limit api q pool address port res0) (\<lambda>res1.
        bind_act (update_description api q pool address port res1) (\<lambda>res2.
        bind_act (update_rate_limit api q pool address port res2) (\<lambda>res3.
        bind_act (update_ratio api q pool address port res3) (\<lambda>res4.
        bind_act (update_session_state api q pool address port res4) (\<lambda>res5.
        bind_act (update_monitor_state api q pool address port res5)
          (update_priority_group api q pool address port)))))))" for q
    by (rule ext) (simp add: main_update_def)
  show ?thesis
    by (simp only: eq)
       (intro agrees_bind agrees_update keeps_changed_bind keeps_changed_update)
qed


lemma agree_main_absent:
  "agree (main_absent api (p\<lparr>p_check_mode := True\<rparr>) pool address port s)
         (main_absent api (p\<lparr>p_check_mode := False\<rparr>) pool address port s)"
  unfolding main_absent_def
proof (rule agree_bind_same)
  fix exists :: bool and t :: "'a st"
  let ?real = "bind_act (remove_pool_member api pool address port) (\<lambda>_.
             if p_preserve_node p then ret \<lparr>changed = True, deleted = None\<rparr>
             else bind_act (delete_node_address api address) (\<lambda>del.
                    ret \<lparr>changed = True, deleted = Some del\<rparr>))"
  have inner: "flagged (bind_act (delete_node_address api address) (\<lambda>del.
                    ret \<lparr>changed = True, deleted = Some del\<rparr>) u)" for u
    by (rule flagged_bind_const) (simp add: ret_def flagged_changed)
  have "flagged (?real t)"
    by (rule flagged_bind_const) (simp add: inner ret_def flagged_changed)
  moreover have "flagged (ret \<lparr>changed = True, deleted = None\<rparr> t)"
    by (simp add: ret_def flagged_def)
  ultimately show "agree
     ((if exists then
         if \<not> p_check_mode (p\<lparr>p_check_mode := True\<rparr>) then
           bind_act (remove_pool_member api pool address port) (\<lambda>_.
             if p_preserve_node (p\<lparr>p_check_mode := True\<rparr>)
             then ret \<lparr>changed = True, deleted = None\<rparr>
             else bind_act (delete_node_address api address) (\<lambda>del.
                    ret \<lparr>changed = True, deleted = Some del\<rparr>))
         else ret \<lparr>changed = True, deleted = None\<rparr>
       else ret \<lparr>changed = False, deleted = None\<rparr>) t)
     ((if exists then
         if \<not> p_check_mode (p\<lparr>p_check_mode := False\<rparr>) then
           bind_act (remove_pool_member api pool address port) (\<lambda>_.
             if p_preserve_node (p\<lparr>p_check_mode := False\<rparr>)
             then ret \<lparr>changed = True, deleted = None\<rparr>
             else bind_act (delete_node_address api address) (\<lambda>del.
                    ret \<lparr>changed = True, deleted = Some del\<rparr>))
         else ret \<lparr>changed = True, deleted = None\<rparr>
       else ret \<lparr>changed = False, deleted = None\<rparr>) t)"
    by (simp add: agree_def)
qed

lemma agree_main_present:
  "agree (main_present api (p\<lparr>p_check_mode := True\<rparr>) pool address port s)
         (main_present api (p\<lparr>p_check_mode := False\<rparr>) pool address port s)"
proof -
  have upd: "agree (main_update api (p\<lparr>p_check_mode := True\<rparr>) pool address port r t)
                   (main_update api (p\<lparr>p_check_mode := False\<rparr>) pool address port r t)" for r t
    using agrees_main_update [of api p pool address port] unfolding agrees_def by blast
  show ?thesis
    unfolding main_present_def
    by (rule agree_bind_same) (simp add: agree_write_or_not upd)
qed

lemma agree_main_try:
  "agree (main_try api (p\<lparr>p_check_mode := True\<rparr>) pool address port s)
         (main_try api (p\<lparr>p_check_mode := False\<rparr>) pool address port s)"
proof -
  have sel: "p_server (p\<lparr>p_check_mode := b\<rparr>) = p_server p"
    "p_user (p\<lparr>p_check_mode := b\<rparr>) = p_user p"
    "p_password (p\<lparr>p_check_mode := b\<rparr>) = p_password p"
    "p_validate_certs (p\<lparr>p_check_mode := b\<rparr>) = p_validate_certs p"
    "p_server_port (p\<lparr>p_check_mode := b\<rparr>) = p_server_port p"
    "p_state (p\<lparr>p_check_mode := b\<rparr>) = p_state p" for b
    by simp_all
  show ?thesis
    unfolding main_try_def sel
    by (intro agree_bind_same) (simp add: agree_refl agree_main_absent agree_main_present)
qed

lemma agree_finish:
  assumes "agree x y"
  shows "finish x = finish y \<or>
         (\<forall>res. fst (finish x) = Exit_json res \<longrightarrow> changed res) \<and>
         (\<forall>res. fst (finish y) = Exit_json res \<longrightarrow> changed res)"
proof (cases "x = y")
  case True
  then show ?thesis by simp
next
  case False
  with assms have "flagged x" "flagged y" by (simp_all add: agree_def)
  then have "\<forall>res. fst (finish x) = Exit_json res \<longrightarrow> changed res"
    and "\<forall>res. fst (finish y) = Exit_json res \<longrightarrow> changed res"
    by (cases x rule: finish.cases; simp add: flagged_def;
        cases y rule: finish.cases; simp add: flagged_def)+
  then show ?thesis by blast
qed

lemma main_check_mode_agree:
  "main e api (p\<lparr>p_check_mode := True\<rparr>) d = main e api (p\<lparr>p_check_mode := False\<rparr>) d \<or>
   (\<forall>res. fst (main e api (p\<lparr>p_check_mode := True\<rparr>) d) = Exit_json res \<longrightarrow> changed res) \<and>
   (\<forall>res. fst (main e api (p\<lparr>p_check_mode := False\<rparr>) d) = Exit_json res \<longrightarrow> changed res)"
proof (cases "checks e p")
  case (Some out)
  then show ?thesis by (simp add: main_def checks_check_mode)
next
  case None
  show ?thesis
  proof (cases "\<exists>pool_name host port. p_pool p = Some pool_name \<and> p_host p = Some host \<and>
                  p_port p = Some port")
    case True
    then obtain pool_name host port where
      ps: "p_pool p = Some pool_name" "p_host p = Some host" "p_port p = Some port"
      by blast
    from agree_finish [OF agree_main_try [of api p "fqdn_name e (p_partition p) pool_name"
           "fqdn_name e (p_partition p) host" port "([], d)"]]
    show ?thesis
      using None ps by (simp add: main_def checks_check_mode)
  next
    case False
    then have "main e api (p\<lparr>p_check_mode := True\<rparr>) d =
               main e api (p\<lparr>p_check_mode := False\<rparr>) d"
      using None by (auto simp: main_def checks_check_mode split: option.splits)
    then show ?thesis by simp
  qed
qed

text \<open>
  Claim C3. A run in check mode issues no write: no creation or removal of a member, no
  node deletion, no setter. When the run in check mode and the run without it, from the
  same parameters and the same device, both report a result, the two values of changed
  are equal; and when check mode reports changed = False, the run without check mode is
  the very same run.
\<close>

theorem check_mode_no_writes_same_changed:
  "(\<forall>c \<in> set (fst (snd (main e api (p\<lparr>p_check_mode := True\<rparr>) d))). \<not> is_write c) \<and>
   (\<forall>res_dry res_real.
      fst (main e api (p\<lparr>p_check_mode := True\<rparr>) d) = Exit_json res_dry \<and>
      fst (main e api (p\<lparr>p_check_mode := False\<rparr>) d) = Exit_json res_real \<longrightarrow>
      changed res_dry = changed res_real) \<and>
   (\<forall>res_dry.
      fst (main e api (p\<lparr>p_check_mode := True\<rparr>) d) = Exit_json res_dry \<and> \<not> changed res_dry \<longrightarrow>
      main e api (p\<lparr>p_check_mode := False\<rparr>) d = main e api (p\<lparr>p_check_mode := True\<rparr>) d)"
proof (intro conjI)
  show "\<forall>c \<in> set (fst (snd (main e api (p\<lparr>p_check_mode := True\<rparr>) d))). \<not> is_write c"
    by (rule check_mode_log) simp
next
  show "\<forall>res_dry res_real.
      fst (main e api (p\<lparr>p_check_mode := True\<rparr>) d) = Exit_json res_dry \<and>
      fst (main e api (p\<lparr>p_check_mode := False\<rparr>) d) = Exit_json res_real \<longrightarrow>
      changed res_dry = changed res_real"
    using main_check_mode_agree [of e api p d] by auto
next
  show "\<forall>res_dry.
      fst (main e api (p\<lparr>p_check_mode := True\<rparr>) d) = Exit_json res_dry \<and> \<not> changed res_dry \<longrightarrow>
      main e api (p\<lparr>p_check_mode := False\<rparr>) d = main e api (p\<lparr>p_check_mode := True\<rparr>) d"
    using main_check_mode_agree [of e api p d] by auto
qed


theorem check_mode_no_writes_same_changed_witness:
  "main env0 (store_api cfg0)
     (params0\<lparr>p_session_state := Some ''enabled'', p_ratio := Some 3, p_check_mode := True\<rparr>)
     dev_member =
     (Exit_json \<lparr>changed = True, deleted = None\<rparr>,
      [BigipApi ''lb.mydomain.com'' ''admin'' ''secret'' True 443,
       Get_object_status ''/Common/web'',
       Get_member_object_status ''/Common/web'' ''/Common/10.0.0.5'' 80,
       Get_member_ratio ''/Common/web'' ''/Common/10.0.0.5'' 80,
       Get_member_session_status ''/Common/web'' ''/Common/10.0.0.5'' 80],
      dev_member) \<and>
   fst (main env0 (store_api cfg0)
     (params0\<lparr>p_session_state := Some ''enabled'', p_ratio := Some 3, p_check_mode := False\<rparr>)
     dev_member) = Exit_json \<lparr>changed = True, deleted = None\<rparr> \<and>
   fst (snd (main env0 (store_api cfg0)
     (params0\<lparr>p_session_state := Some ''enabled'', p_ratio := Some 3, p_check_mode := False\<rparr>)
     dev_member)) =
     [BigipApi ''lb.mydomain.com'' ''admin'' ''secret'' True 443,
      Get_object_status ''/Common/web'',
      Get_member_object_status ''/Common/web'' ''/Common/10.0.0.5'' 80,
      Get_member_ratio ''/Common/web'' ''/Common/10.0.0.5'' 80,
      Set_member_ratio ''/Common/web'' ''/Common/10.0.0.5'' 80 3,
      Get_member_session_status ''/Common/web'' ''/Common/10.0.0.5'' 80,
      Set_member_session_enabled_state ''/Common/web'' ''/Common/10.0.0.5'' 80 ''STATE_ENABLED''] \<and>
   fst (main env0 (store_api cfg0) (params0\<lparr>p_ratio := Some 1, p_check_mode := True\<rparr>) dev_member)
     = Exit_json \<lparr>changed = False, deleted = None\<rparr> \<and>
   main env0 (store_api cfg0) (params0\<lparr>p_ratio := Some 1, p_check_mode := False\<rparr>) dev_member =
   main env0 (store_api cfg0) (params0\<lparr>p_ratio := Some 1, p_check_mode := True\<rparr>) dev_member"
proof -
  let ?p = "params0\<lparr>p_session_state := Some ''enabled'', p_ratio := Some 3\<rparr>"
  let ?q = "params0\<lparr>p_ratio := Some 1\<rparr>"
  have dry: "main env0 (store_api cfg0) (?p\<lparr>p_check_mode := True\<rparr>) dev_member =
     (Exit_json \<lparr>changed = True, deleted = None\<rparr>,
      [BigipApi ''lb.mydomain.com'' ''admin'' ''secret'' True 443,
       Get_object_status ''/Common/web'',
       Get_member_object_status ''/Common/web'' ''/Common/10.0.0.5'' 80,
       Get_member_ratio ''/Common/web'' ''/Common/10.0.0.5'' 80,
       Get_member_session_status ''/Common/web'' ''/Common/10.0.0.5'' 80],
      dev_member)"
    by code_simp
  have real: "fst (main env0 (store_api cfg0) (?p\<lparr>p_check_mode := False\<rparr>) dev_member) =
      Exit_json \<lparr>changed = True, deleted = None\<rparr>"
    by code_simp
  have real_log: "fst (snd (main env0 (store_api cfg0) (?p\<lparr>p_check_mode := False\<rparr>) dev_member)) =
     [BigipApi ''lb.mydomain.com'' ''admin'' ''secret'' True 443,
      Get_object_status ''/Common/web'',
      Get_member_object_status ''/Common/web'' ''/Common/10.0.0.5'' 80,
      Get_member_ratio ''/Common/web'' ''/Common/10.0.0.5'' 80,
      Set_member_ratio ''/Common/web'' ''/Common/10.0.0.5'' 80 3,
      Get_member_session_status ''/Common/web'' ''/Common/10.0.0.5'' 80,
      Set_member_session_enabled_state ''/Common/web'' ''/Common/10.0.0.5'' 80 ''STATE_ENABLED'']"
    by code_simp
  have same: "fst (main env0 (store_api cfg0) (?q\<lparr>p_check_mode := True\<rparr>) dev_member) =
      Exit_json \<lparr>changed = False, deleted = None\<rparr>"
    by code_simp
  have "main env0 (store_api cfg0) (?q\<lparr>p_check_mode := False\<rparr>) dev_member =
        main env0 (store_api cfg0) (?q\<lparr>p_check_mode := True\<rparr>) dev_member"
    using check_mode_no_writes_same_changed [of env0 "store_api cfg0" ?q dev_member] same
    by simp
  with dry real real_log same show ?thesis
    by simp
qed


section \<open>A second run\<close>

subsection \<open>On a settled device a run changes nothing\<close>






subsection \<open>After a run without check mode the device is settled\<close>






































end
